theory Spec2Isabelle
  imports Main "HOL-Library.AList" "HOL-Library.Sublist"
begin

section \<open>JavaScript values and strings\<close>

text \<open>
  The gateway is TypeScript running on Node. Its request bodies, envelopes and tool
  catalogs are untyped JavaScript values, so they are modelled by one datatype of values:
  \<open>JObj\<close> keeps the own properties of an object in insertion order, \<open>JErr name message\<close>
  is an \<open>Error\<close> object. Numbers are the integers (identifiers, counts, ports and status
  codes are all the code computes with). Strings are lists of 8-bit characters: a text
  is given by its UTF-8 encoding, a header value or status text by its bytes.
\<close>

datatype jsval =
    JUndefined
  | JNull
  | JBool bool
  | JNum int
  | JStr string
  | JArr "jsval list"
  | JObj "(string \<times> jsval) list"
  | JErr string string

text \<open>Truthiness, as \<open>if (v)\<close>, \<open>v || d\<close> and \<open>v && w\<close> test it.\<close>

fun truthy :: "jsval \<Rightarrow> bool" where
  "truthy JUndefined = False"
| "truthy JNull = False"
| "truthy (JBool b) = b"
| "truthy (JNum n) = (n \<noteq> 0)"
| "truthy (JStr s) = (s \<noteq> [])"
| "truthy (JArr xs) = True"
| "truthy (JObj kvs) = True"
| "truthy (JErr n m) = True"

definition js_or :: "jsval \<Rightarrow> jsval \<Rightarrow> jsval" where
  "js_or a b = (if truthy a then a else b)"

definition js_and :: "jsval \<Rightarrow> jsval \<Rightarrow> jsval" where
  "js_and a b = (if truthy a then b else a)"

definition nullish :: "jsval \<Rightarrow> bool" where
  "nullish v = (v = JUndefined \<or> v = JNull)"

text \<open>Decimal rendering of a number, as a template literal prints it.\<close>

definition digit :: "nat \<Rightarrow> char" where
  "digit d = ''0123456789'' ! d"

function show_nat :: "nat \<Rightarrow> string" where
  "show_nat n = (if n < 10 then [digit n] else show_nat (n div 10) @ [digit (n mod 10)])"
  by pat_completeness auto
termination
  by (relation "measure id") auto

declare show_nat.simps [simp del]

definition show_int :: "int \<Rightarrow> string" where
  "show_int i = (if i < 0 then CHR ''-'' # show_nat (nat (- i)) else show_nat (nat i))"

fun join :: "string \<Rightarrow> string list \<Rightarrow> string" where
  "join sep [] = []"
| "join sep [x] = x"
| "join sep (x # y # ys) = x @ sep @ join sep (y # ys)"

text \<open>\<open>String(v)\<close>, the coercion a template literal applies to an interpolated value.\<close>

fun to_string :: "jsval \<Rightarrow> string" where
  "to_string JUndefined = ''undefined''"
| "to_string JNull = ''null''"
| "to_string (JBool b) = (if b then ''true'' else ''false'')"
| "to_string (JNum n) = show_int n"
| "to_string (JStr s) = s"
| "to_string (JArr xs) =
     join '','' (map (\<lambda>x. if x = JUndefined \<or> x = JNull then [] else to_string x) xs)"
| "to_string (JObj kvs) = ''[object Object]''"
| "to_string (JErr n m) = (if m = [] then n else n @ '': '' @ m)"

text \<open>
  Property reads. \<open>own_prop\<close> is \<open>v.k\<close> on a value that is neither \<open>null\<close> nor
  \<open>undefined\<close>, for the property names the gateway reads (\<open>id\<close>, \<open>method\<close>,
  \<open>params\<close>, \<open>name\<close>, \<open>arguments\<close>, \<open>result\<close>, \<open>tools\<close>, \<open>results\<close>, \<open>A\<close>,
  \<open>frames\<close>, \<open>length\<close>, \<open>from\<close>, \<open>to\<close>, \<open>message\<close>): of these an array and a string
  have only \<open>length\<close>. \<open>get_prop\<close> is the plain read \<open>v.k\<close>, which throws a TypeError
  on \<open>null\<close> and \<open>undefined\<close>; \<open>opt_prop\<close> is \<open>v?.k\<close>.
\<close>

fun own_prop :: "jsval \<Rightarrow> string \<Rightarrow> jsval" where
  "own_prop (JObj kvs) k = (case map_of kvs k of None \<Rightarrow> JUndefined | Some v \<Rightarrow> v)"
| "own_prop (JArr xs) k = (if k = ''length'' then JNum (int (length xs)) else JUndefined)"
| "own_prop (JStr s) k = (if k = ''length'' then JNum (int (length s)) else JUndefined)"
| "own_prop (JErr n m) k =
     (if k = ''message'' then JStr m else if k = ''name'' then JStr n else JUndefined)"
| "own_prop v k = JUndefined"

definition get_prop :: "jsval \<Rightarrow> string \<Rightarrow> jsval + jsval" where
  "get_prop v k =
     (if nullish v
      then Inl (JErr ''TypeError''
                  (''Cannot read properties of '' @ to_string v @ '' (reading '' @ k @ '')''))
      else Inr (own_prop v k))"

definition opt_prop :: "jsval \<Rightarrow> string \<Rightarrow> jsval" where
  "opt_prop v k = (if nullish v then JUndefined else own_prop v k)"

text \<open>
  String methods. \<open>str_includes s t\<close> is \<open>s.includes(t)\<close>, \<open>prefix t s\<close> is
  \<open>s.startsWith(t)\<close>. \<open>toLowerCase\<close> maps the ASCII capitals, which is all that matters
  where its result is searched for an ASCII text. \<open>String.prototype.trim\<close>, whose white
  space is a set of Unicode code points, belongs to the platform below.
\<close>

fun str_includes :: "string \<Rightarrow> string \<Rightarrow> bool" where
  "str_includes [] t = (t = [])"
| "str_includes (c # cs) t = (prefix t (c # cs) \<or> str_includes cs t)"

definition lower_char :: "char \<Rightarrow> char" where
  "lower_char c =
     (let n = (of_char c :: nat) in if 65 \<le> n \<and> n \<le> 90 then char_of (n + 32) else c)"

definition toLowerCase :: "string \<Rightarrow> string" where
  "toLowerCase s = map lower_char s"

text \<open>
  Building an object. \<open>AList.update k v\<close> is the assignment \<open>o[k] = v\<close>: it overwrites
  an existing property in place and appends a new one. \<open>spread_props v\<close> are the own
  enumerable properties that \<open>{...v}\<close> copies: those of an object, the indexed elements
  of an array or a string, and none for every other value (in particular the falsy
  ones). \<open>obj_spread o v\<close> is \<open>{...o, ...v}\<close>.
\<close>

fun spread_props :: "jsval \<Rightarrow> (string \<times> jsval) list" where
  "spread_props (JObj kvs) = kvs"
| "spread_props (JArr xs) = zip (map show_nat [0 ..< length xs]) xs"
| "spread_props (JStr s) = zip (map show_nat [0 ..< length s]) (map (\<lambda>c. JStr [c]) s)"
| "spread_props v = []"

definition obj_spread :: "(string \<times> jsval) list \<Rightarrow> jsval \<Rightarrow> (string \<times> jsval) list" where
  "obj_spread ob v = fold (\<lambda>(k, x) acc. AList.update k x acc) (spread_props v) ob"

text \<open>
  \<open>[...v]\<close>, the array spread: the elements of an array, the characters of a string, and
  a TypeError for a value that is not iterable.
\<close>

fun spread_iter :: "jsval \<Rightarrow> jsval + jsval list" where
  "spread_iter (JArr xs) = Inr xs"
| "spread_iter (JStr s) = Inr (map (\<lambda>c. JStr [c]) s)"
| "spread_iter v = Inl (JErr ''TypeError'' (to_string v @ '' is not iterable''))"

section \<open>The platform: HTTP, processes, timers\<close>

text \<open>
  Everything outside the gateway (the backend tool server, the upstream telemetry API,
  the operating system, the clock) is one environment with a state of type \<open>'w\<close>.
  \<open>fetch\<close> answers a request with a response or throws (network failure, abort by the
  2.5 s timer); \<open>spawn\<close> starts a child process; \<open>sleep\<close> lets time pass;
  \<open>validateToken\<close> is \<open>OAuthValidator.validateToken\<close>, whose source is not part of the
  repository files at hand, and is therefore a parameter; \<open>trim\<close> is the built-in
  \<open>String.prototype.trim\<close>. Every awaited operation is taken to settle.
\<close>

datatype http_method = GET | POST | DELETE

datatype payload =
    Text string
  | Json jsval
  | Piped "jsval + string"

record http_request =
  rq_url :: string
  rq_method :: http_method
  rq_headers :: "(string \<times> string) list"
  rq_body :: "jsval option"

text \<open>
  \<open>rq_body = Some v\<close> is the body \<open>JSON.stringify(v)\<close>. The body of a backend response
  is the outcome of reading it with \<open>text()\<close>: the text, or the error the read rejects with.
\<close>

record http_response =
  status :: nat
  statusText :: string
  headers :: "(string \<times> string) list"
  body :: "jsval + string"

text \<open>
  A response of the gateway. Its body is a text, the serialisation \<open>JSON.stringify(v)\<close>
  of a value (\<open>c.json(v)\<close>), or the body stream of a backend response handed on unread.
\<close>

record gw_response =
  gw_status :: nat
  gw_statusText :: string
  gw_headers :: "(string \<times> string) list"
  gw_body :: payload

record 'w platform =
  fetch :: "'w \<Rightarrow> http_request \<Rightarrow> 'w \<times> (jsval + http_response)"
  spawn :: "'w \<Rightarrow> string \<Rightarrow> string list \<Rightarrow> (string \<times> string) list \<Rightarrow> 'w"
  sleep :: "'w \<Rightarrow> nat \<Rightarrow> 'w"
  validateToken :: "'w \<Rightarrow> string \<Rightarrow> 'w \<times> (jsval + jsval)"
  trim :: "string \<Rightarrow> string"

text \<open>
  The constructor \<open>new Response(body, {status, statusText, headers})\<close> of the Fetch
  standard. It throws a RangeError for a status outside 200-599, a TypeError for a status
  text that is not a reason phrase (a character other than tab, 0x20-0x7E and 0x80-0xFF),
  and a TypeError when a body is given, be it the empty text, together with one of the
  null body statuses. The headers passed below are those of a response that \<open>fetch\<close>
  delivered, or a literal, and are accepted. Without a body the response reads as the
  empty text.
\<close>

definition null_body_status :: "nat \<Rightarrow> bool" where
  "null_body_status st = (st = 101 \<or> st = 103 \<or> st = 204 \<or> st = 205 \<or> st = 304)"

definition reason_phrase :: "string \<Rightarrow> bool" where
  "reason_phrase t =
     list_all (\<lambda>c. of_char c = (9::nat) \<or> (32 \<le> (of_char c :: nat) \<and> (of_char c :: nat) \<le> 126)
                    \<or> 128 \<le> (of_char c :: nat)) t"

definition new_Response ::
  "payload option \<Rightarrow> nat \<Rightarrow> string \<Rightarrow> (string \<times> string) list \<Rightarrow> jsval + gw_response" where
  \<open>new_Response b st stt hs =
     (if st < 200 \<or> 599 < st
      then Inl (JErr ''RangeError''
                  ''init["status"] must be in the range of 200 to 599, inclusive.'')
      else if \<not> reason_phrase stt
      then Inl (JErr ''TypeError'' ''Invalid statusText'')
      else (case b of
              None \<Rightarrow>
                Inr \<lparr>gw_status = st, gw_statusText = stt, gw_headers = hs, gw_body = Text []\<rparr>
            | Some p \<Rightarrow>
                if null_body_status st
                then Inl (JErr ''TypeError''
                            (''Response constructor: Invalid response status code ''
                               @ show_nat st))
                else Inr \<lparr>gw_status = st, gw_statusText = stt, gw_headers = hs,
                          gw_body = p\<rparr>))\<close>

text \<open>
  The state of the gateway: the fields \<open>mcpProcess\<close> and \<open>isInitialized\<close> of the
  \<open>GrafanaMcpHttpProxy\<close> instance, the environment, and a log of the effects performed so
  far (the log is not in the source; the claims about how often the backend is contacted
  or a process is spawned are stated on it).
\<close>

datatype event =
    Spawn string "string list" "(string \<times> string) list"
  | Fetch http_request
  | Sleep nat

record child_process =
  killed :: bool

record 'w gw_state =
  world :: 'w
  trace :: "event list"
  mcpProcess :: "child_process option"
  isInitialized :: bool

definition do_fetch ::
  "'w platform \<Rightarrow> http_request \<Rightarrow> 'w gw_state \<Rightarrow> 'w gw_state \<times> (jsval + http_response)" where
  "do_fetch pf rq s =
     (case fetch pf (world s) rq of
        (w, r) \<Rightarrow> (s\<lparr>world := w, trace := trace s @ [Fetch rq]\<rparr>, r))"

definition do_sleep :: "'w platform \<Rightarrow> nat \<Rightarrow> 'w gw_state \<Rightarrow> 'w gw_state" where
  "do_sleep pf ms s = s\<lparr>world := sleep pf (world s) ms, trace := trace s @ [Sleep ms]\<rparr>"

definition do_spawn ::
  "'w platform \<Rightarrow> string \<Rightarrow> string list \<Rightarrow> (string \<times> string) list \<Rightarrow> 'w gw_state \<Rightarrow> 'w gw_state" where
  "do_spawn pf cmd args env s =
     s\<lparr>world := spawn pf (world s) cmd args env,
       trace := trace s @ [Spawn cmd args env],
       mcpProcess := Some \<lparr>killed = False\<rparr>\<rparr>"

definition ok :: "http_response \<Rightarrow> bool" where
  "ok r = (200 \<le> status r \<and> status r \<le> 299)"

text \<open>
  \<open>Headers.get(name)\<close>: names compare without case, the values of repeated headers are
  joined by a comma and a space, and an absent header gives \<open>null\<close>.
\<close>

definition header_get :: "(string \<times> string) list \<Rightarrow> string \<Rightarrow> string option" where
  "header_get hs n =
     (case filter (\<lambda>(k, v). toLowerCase k = toLowerCase n) hs of
        [] \<Rightarrow> None
      | kvs \<Rightarrow> Some (join '', '' (map snd kvs)))"

section \<open>GrafanaMcpHttpProxy: readiness probing\<close>

record proxy_config =
  grafanaServiceAccountToken :: string
  grafanaUrl :: string
  mcpServerPort :: "nat option"

text \<open>\<open>config.mcpServerPort || 3001\<close>: an absent port and the port 0 both give 3001.\<close>

definition port_of :: "proxy_config \<Rightarrow> nat" where
  "port_of cfg = (case mcpServerPort cfg of None \<Rightarrow> 3001 | Some p \<Rightarrow> if p = 0 then 3001 else p)"

definition mcpServerUrl :: "proxy_config \<Rightarrow> string" where
  "mcpServerUrl cfg = ''http://localhost:'' @ show_nat (port_of cfg) @ ''/mcp''"

definition maxRetries :: nat where
  "maxRetries = 10"

definition retryDelayMs :: nat where
  "retryDelayMs = 500"

definition probe_post :: "string \<Rightarrow> http_request" where
  "probe_post u =
     \<lparr>rq_url = u, rq_method = POST,
      rq_headers = [(''Content-Type'', ''application/json'')],
      rq_body = Some (JObj [(''jsonrpc'', JStr ''2.0''), (''method'', JStr ''ping''),
                            (''id'', JNum 1)])\<rparr>"

definition probe_get :: "string \<Rightarrow> http_request" where
  "probe_get u =
     \<lparr>rq_url = u, rq_method = GET,
      rq_headers = [(''Accept'', ''text/event-stream'')],
      rq_body = None\<rparr>"

text \<open>
  Lines 113-134 of \<open>waitForServer\<close>: the fallback probe of the streaming channel. A thrown
  fetch is caught and logged, and the attempt has not confirmed readiness.
\<close>

definition attempt_sse :: "'w platform \<Rightarrow> string \<Rightarrow> 'w gw_state \<Rightarrow> 'w gw_state \<times> bool" where
  "attempt_sse pf u s =
     (case do_fetch pf (probe_get u) s of
        (s1, Inr sse) \<Rightarrow>
          (let ctype = toLowerCase (case header_get (headers sse) ''content-type'' of
                                      None \<Rightarrow> [] | Some v \<Rightarrow> v)
           in (s1, status sse = 200 \<and> str_includes ctype ''text/event-stream''))
      | (s1, Inl e) \<Rightarrow> (s1, False))"

text \<open>
  Lines 80-134: one pass of the loop body up to the sleep. The result is whether the
  pass returned from \<open>waitForServer\<close>. \<open>res.text().catch(() => '')\<close> reads a body that
  cannot be read as the empty text.
\<close>

definition attempt :: "'w platform \<Rightarrow> string \<Rightarrow> 'w gw_state \<Rightarrow> 'w gw_state \<times> bool" where
  "attempt pf u s =
     (case do_fetch pf (probe_post u) s of
        (s1, Inr res) \<Rightarrow>
          if ok res then (s1, True)
          else
            (let text = (case body res of Inl e \<Rightarrow> [] | Inr t \<Rightarrow> t)
             in if status res = 400 \<and> str_includes text ''Invalid session ID''
                then (s1, True)
                else attempt_sse pf u s1)
      | (s1, Inl e) \<Rightarrow> attempt_sse pf u s1)"

text \<open>The \<open>for\<close> loop of \<open>waitForServer\<close>, from the counter \<open>i\<close> on, and the final throw.\<close>

function waitLoop ::
  "'w platform \<Rightarrow> string \<Rightarrow> nat \<Rightarrow> 'w gw_state \<Rightarrow> 'w gw_state \<times> (jsval + unit)" where
  "waitLoop pf u i s =
     (if i < maxRetries
      then (case attempt pf u s of
              (s1, True) \<Rightarrow> (s1, Inr ())
            | (s1, False) \<Rightarrow> waitLoop pf u (i + 1) (do_sleep pf retryDelayMs s1))
      else (s, Inl (JErr ''Error'' ''MCP server failed to start'')))"
  by pat_completeness auto
termination
  by (relation "measure (\<lambda>(pf, u, i, s). maxRetries - i)") auto

declare waitLoop.simps [simp del]

definition waitForServer ::
  "'w platform \<Rightarrow> proxy_config \<Rightarrow> 'w gw_state \<Rightarrow> 'w gw_state \<times> (jsval + unit)" where
  "waitForServer pf cfg s = waitLoop pf (mcpServerUrl cfg) 0 s"

section \<open>GrafanaMcpHttpProxy: initialisation and forwarding\<close>

text \<open>The guard on line 22 of \<open>initializeMcpServer\<close>.\<close>

definition already_running :: "'w gw_state \<Rightarrow> bool" where
  "already_running s =
     (isInitialized s \<and> (case mcpProcess s of None \<Rightarrow> False | Some p \<Rightarrow> \<not> killed p))"

text \<open>Lines 29-63: the spawn of \<open>mcp-grafana\<close>, with the two variables added to the environment.\<close>

definition spawn_backend :: "'w platform \<Rightarrow> proxy_config \<Rightarrow> 'w gw_state \<Rightarrow> 'w gw_state" where
  "spawn_backend pf cfg s =
     do_spawn pf ''mcp-grafana''
       [''-t'', ''streamable-http'', ''--address'', ''0.0.0.0:'' @ show_nat (port_of cfg)]
       [(''GRAFANA_URL'', grafanaUrl cfg),
        (''GRAFANA_SERVICE_ACCOUNT_TOKEN'', grafanaServiceAccountToken cfg)]
       s"

text \<open>Lines 66-67: \<open>await this.waitForServer(); this.isInitialized = true\<close>.\<close>

definition await_ready ::
  "'w platform \<Rightarrow> proxy_config \<Rightarrow> 'w gw_state \<Rightarrow> 'w gw_state \<times> (jsval + unit)" where
  "await_ready pf cfg s =
     (case waitForServer pf cfg s of
        (s1, Inr u) \<Rightarrow> (s1\<lparr>isInitialized := True\<rparr>, Inr ())
      | (s1, Inl e) \<Rightarrow> (s1, Inl e))"

definition initializeMcpServer ::
  "'w platform \<Rightarrow> proxy_config \<Rightarrow> 'w gw_state \<Rightarrow> 'w gw_state \<times> (jsval + unit)" where
  "initializeMcpServer pf cfg s =
     (if already_running s then (s, Inr ())
      else await_ready pf cfg (spawn_backend pf cfg s))"

text \<open>The handlers of the child's \<open>exit\<close> and \<open>error\<close> events (lines 51-59).\<close>

definition process_exited :: "'w gw_state \<Rightarrow> 'w gw_state" where
  "process_exited s = s\<lparr>isInitialized := False\<rparr>"

definition json_headers :: "(string \<times> string) list" where
  "json_headers = [(''Content-Type'', ''application/json'')]"

definition backend_post :: "string \<Rightarrow> (string \<times> string) list \<Rightarrow> jsval \<Rightarrow> http_request" where
  "backend_post u hs b = \<lparr>rq_url = u, rq_method = POST, rq_headers = hs, rq_body = Some b\<rparr>"

text \<open>\<open>if (sessionId) headers['mcp-session-id'] = sessionId\<close>: an empty header value is falsy.\<close>

definition session_header :: "string option \<Rightarrow> (string \<times> string) list" where
  "session_header sessionId =
     (case sessionId of
        None \<Rightarrow> []
      | Some sid \<Rightarrow> if sid \<noteq> [] then [(''mcp-session-id'', sid)] else [])"

text \<open>
  \<open>new Response(text, {status, statusText, headers})\<close> with the status, status text and
  headers of a backend response (lines 271-275 and 297-301). A throw of the constructor is
  inside the \<open>try\<close>, whose handler throws it on.
\<close>

definition relay_response :: "http_response \<Rightarrow> string \<Rightarrow> jsval + gw_response" where
  "relay_response r t = new_Response (Some (Text t)) (status r) (statusText r) (headers r)"

text \<open>Lines 281-294: the envelope built for a plain-text error of the backend.\<close>

definition errorResponse :: "jsval \<Rightarrow> string \<Rightarrow> jsval" where
  "errorResponse rid trimmed =
     JObj [(''jsonrpc'', JStr ''2.0''),
           (''id'', js_or rid (JNum 1)),
           (''error'', JObj [(''code'', JNum (- 32603)),
                             (''message'', JStr ''Internal error''),
                             (''data'', JStr trimmed)])]"

definition handleMcpRequest ::
  "'w platform \<Rightarrow> proxy_config \<Rightarrow> jsval \<Rightarrow> string option \<Rightarrow> 'w gw_state
     \<Rightarrow> 'w gw_state \<times> (jsval + gw_response)" where
  "handleMcpRequest pf cfg requestBody sessionId s =
     (case initializeMcpServer pf cfg s of
        (s0, Inl e) \<Rightarrow> (s0, Inl e)
      | (s0, Inr u) \<Rightarrow>
          (case do_fetch pf (backend_post (mcpServerUrl cfg)
                               (json_headers @ session_header sessionId) requestBody) s0 of
             (s1, Inl e) \<Rightarrow> (s1, Inl e)
           | (s1, Inr response) \<Rightarrow>
               (case body response of
                  Inl e \<Rightarrow> (s1, Inl e)
                | Inr responseBody \<Rightarrow>
                    if status response = 400 \<and> str_includes responseBody ''Invalid session ID''
                    then
                      (case do_fetch pf (backend_post (mcpServerUrl cfg) json_headers
                                           requestBody) s1 of
                         (s2, Inl e) \<Rightarrow> (s2, Inl e)
                       | (s2, Inr retryResponse) \<Rightarrow>
                           (case body retryResponse of
                              Inl e \<Rightarrow> (s2, Inl e)
                            | Inr retryBody \<Rightarrow> (s2, relay_response retryResponse retryBody)))
                    else if \<not> ok response \<and> responseBody \<noteq> []
                            \<and> \<not> prefix ''{'' (trim pf responseBody)
                    then
                      (case get_prop requestBody ''id'' of
                         Inl e \<Rightarrow> (s1, Inl e)
                       | Inr rid \<Rightarrow>
                           (s1, new_Response
                                  (Some (Json (errorResponse rid (trim pf responseBody))))
                                  200 [] json_headers))
                    else (s1, relay_response response responseBody))))"

section \<open>Concurrent demands for readiness\<close>

text \<open>
  Node runs an \<open>async\<close> function without interruption up to an \<open>await\<close> that has to
  wait. A call of \<open>initializeMcpServer\<close> therefore runs in two uninterrupted pieces:
  \<open>demand_enter\<close>, the guard and the spawn, up to the first \<open>await\<close> inside
  \<open>waitForServer\<close>; and \<open>demand_resume\<close>, the rest. Pieces of other calls may run in
  between. (The probes of \<open>waitForServer\<close> are kept in one piece here; a finer split
  allows more interleavings, not fewer.)
\<close>

datatype demand = NotStarted | Suspended | Completed "jsval + unit"

definition demand_enter ::
  "'w platform \<Rightarrow> proxy_config \<Rightarrow> 'w gw_state \<Rightarrow> 'w gw_state \<times> demand" where
  "demand_enter pf cfg s =
     (if already_running s then (s, Completed (Inr ()))
      else (spawn_backend pf cfg s, Suspended))"

definition demand_resume ::
  "'w platform \<Rightarrow> proxy_config \<Rightarrow> 'w gw_state \<Rightarrow> 'w gw_state \<times> demand" where
  "demand_resume pf cfg s = (case await_ready pf cfg s of (s1, r) \<Rightarrow> (s1, Completed r))"

text \<open>One scheduling step: the demand with index \<open>i\<close> runs its next piece.\<close>

definition sched_step ::
  "'w platform \<Rightarrow> proxy_config \<Rightarrow> nat \<Rightarrow> 'w gw_state \<times> demand list
     \<Rightarrow> 'w gw_state \<times> demand list" where
  "sched_step pf cfg i c =
     (case c of (s, ds) \<Rightarrow>
        if i < length ds then
          (case ds ! i of
             NotStarted \<Rightarrow> (case demand_enter pf cfg s of (s1, d) \<Rightarrow> (s1, ds[i := d]))
           | Suspended \<Rightarrow> (case demand_resume pf cfg s of (s1, d) \<Rightarrow> (s1, ds[i := d]))
           | Completed r \<Rightarrow> (s, ds))
        else (s, ds))"

definition run_schedule ::
  "'w platform \<Rightarrow> proxy_config \<Rightarrow> nat list \<Rightarrow> 'w gw_state \<times> demand list
     \<Rightarrow> 'w gw_state \<times> demand list" where
  "run_schedule pf cfg sched c = fold (sched_step pf cfg) sched c"

fun is_spawn :: "event \<Rightarrow> bool" where
  "is_spawn (Spawn c a e) = True"
| "is_spawn ev = False"

definition spawns :: "event list \<Rightarrow> nat" where
  "spawns tr = length (filter is_spawn tr)"

fun is_fetch :: "http_method \<Rightarrow> event \<Rightarrow> bool" where
  "is_fetch m (Fetch rq) = (rq_method rq = m)"
| "is_fetch m ev = False"

definition fetches :: "http_method \<Rightarrow> event list \<Rightarrow> nat" where
  "fetches m tr = length (filter (is_fetch m) tr)"

fun is_sleep :: "event \<Rightarrow> bool" where
  "is_sleep (Sleep ms) = True"
| "is_sleep ev = False"

definition sleeps :: "event list \<Rightarrow> nat" where
  "sleeps tr = length (filter is_sleep tr)"

section \<open>CustomToolHandler\<close>

text \<open>
  \<open>JSON.stringify\<close> and \<open>JSON.parse\<close> belong to the platform and are parameters:
  \<open>stringify v\<close> is \<open>JSON.stringify(v)\<close>, \<open>stringify_pretty v\<close> is the text a template
  literal prints for \<open>JSON.stringify(v, null, 2)\<close>, and \<open>parse t\<close> is \<open>JSON.parse(t)\<close>,
  which throws a SyntaxError on a text that is not JSON.
\<close>

record json_lib =
  stringify :: "jsval \<Rightarrow> string"
  stringify_pretty :: "jsval \<Rightarrow> string"
  parse :: "string \<Rightarrow> jsval + jsval"

record custom_config =
  ct_grafanaUrl :: string
  ct_grafanaApiKey :: string

definition nl :: string where
  "nl = [CHR 0x0A]"

definition mk_error :: "string \<Rightarrow> jsval" where
  "mk_error m = JErr ''Error'' m"

text \<open>\<open>await response.json()\<close>: read the body, then parse it.\<close>

definition response_json :: "json_lib \<Rightarrow> http_response \<Rightarrow> jsval + jsval" where
  "response_json lib r = (case body r of Inl e \<Rightarrow> Inl e | Inr t \<Rightarrow> parse lib t)"

text \<open>Lines 50-68, \<open>handleInitialize\<close>.\<close>

definition handleInitialize :: jsval where
  "handleInitialize =
     JObj [(''protocolVersion'', JStr ''2025-06-18''),
           (''capabilities'', JObj [(''tools'', JObj [])]),
           (''serverInfo'', JObj [(''name'', JStr ''grafana-mcp-custom-tools''),
                                  (''version'', JStr ''1.0.0'')]),
           (''instructions'', JStr (
              ''Custom Grafana MCP tools for enhanced datasource querying.'' @ nl @ nl @
              ''Available tools:'' @ nl @
              ''- query_datasource: Query any Grafana datasource by UID with native query format'' @ nl @
              ''- list_datasources_detailed: Get detailed information about all configured datasources'' @ nl @ nl @
              ''These tools extend the official Grafana MCP server with generic datasource querying capabilities.''))]"

text \<open>The table \<open>customTools\<close> of \<open>custom-mcp-tools.ts\<close>, as \<open>Object.values\<close> lists it.\<close>

definition customTools :: "jsval list" where
  \<open>customTools =
     [JObj [(''name'', JStr ''query_datasource''),
            (''description'', JStr (
               ''Query any Grafana datasource with native query formats:'' @ nl @
               ''- Azure Monitor: KQL queries for logs and metrics'' @ nl @
               ''- Prometheus: PromQL for metrics  '' @ nl @
               ''- MySQL/PostgreSQL: SQL queries'' @ nl @
               ''- InfluxDB: Flux or InfluxQL queries'' @ nl @
               ''- Loki: LogQL queries'' @ nl @
               ''- Any other datasource type supported by Grafana'' @ nl @ nl @
               ''IMPORTANT: Use list_datasources_detailed (not list_datasources) first to get datasource UIDs and query format examples.'')),
            (''inputSchema'', JObj [
               (''type'', JStr ''object''),
               (''properties'', JObj [
                  (''datasourceUid'', JObj [
                     (''type'', JStr ''string''),
                     (''description'', JStr ''UID of the datasource (get from list_datasources_detailed)'')]),
                  (''query'', JObj [
                     (''type'', JStr ''object''),
                     (''description'', JStr ''Query object - format depends on datasource type. Examples: {kusto: 'KQL query'} for Azure Monitor, {expr: 'PromQL'} for Prometheus, {rawSql: 'SQL'} for SQL databases'')]),
                  (''timeRange'', JObj [
                     (''type'', JStr ''object''),
                     (''description'', JStr ''Time range for the query''),
                     (''properties'', JObj [
                        (''from'', JObj [(''type'', JStr ''string''),
                                         (''description'', JStr ''Start time (ISO string or relative like 'now-1h')'')]),
                        (''to'', JObj [(''type'', JStr ''string''),
                                       (''description'', JStr ''End time (ISO string or relative like 'now')'')])])]),
                  (''maxDataPoints'', JObj [
                     (''type'', JStr ''number''),
                     (''description'', JStr ''Maximum number of data points to return (optional)'')])]),
               (''required'', JArr [JStr ''datasourceUid'', JStr ''query''])])],
      JObj [(''name'', JStr ''list_datasources_detailed''),
            (''description'', JStr ''Enhanced datasource listing with query examples and detailed type information. Use this instead of list_datasources when you need to query datasources, as it provides query format examples for Azure Monitor (KQL), Prometheus (PromQL), SQL databases, and other types. The basic list_datasources only shows names and UIDs.''),
            (''inputSchema'', JObj [
               (''type'', JStr ''object''),
               (''properties'', JObj []),
               (''required'', JArr [])])]]\<close>

definition handleToolsList :: jsval where
  "handleToolsList = JObj [(''tools'', JArr customTools)]"

definition api_headers :: "custom_config \<Rightarrow> (string \<times> string) list" where
  "api_headers cc =
     [(''Authorization'', ''Bearer '' @ ct_grafanaApiKey cc),
      (''Content-Type'', ''application/json'')]"

text \<open>
  Lines 81-94 of \<open>queryDatasource\<close>: the request object. The object literal is built
  left to right, a later property of the same name replacing the value of an earlier one.
\<close>

definition queryRequest :: "jsval \<Rightarrow> jsval \<Rightarrow> jsval \<Rightarrow> jsval \<Rightarrow> jsval" where
  "queryRequest datasourceUid query timeRange maxDataPoints =
     (let q0 = [(''datasource'', JObj [(''uid'', datasourceUid)])];
          q1 = obj_spread q0 query;
          q2 = AList.update ''refId'' (JStr ''A'') q1;
          q3 = obj_spread q2
                 (js_and timeRange
                    (JObj [(''timeRange'',
                            JObj [(''from'', js_or (own_prop timeRange ''from'') (JStr ''now-1h'')),
                                  (''to'', js_or (own_prop timeRange ''to'') (JStr ''now''))])]));
          q4 = obj_spread q3 (js_and maxDataPoints (JObj [(''maxDataPoints'', maxDataPoints)]))
      in JObj [(''queries'', JArr [JObj q4])])"

definition query_fetch :: "custom_config \<Rightarrow> jsval \<Rightarrow> http_request" where
  "query_fetch cc rq =
     \<lparr>rq_url = ct_grafanaUrl cc @ ''/api/ds/query'', rq_method = POST,
      rq_headers = api_headers cc, rq_body = Some rq\<rparr>"

text \<open>Lines 115-129: the tool output for a parsed result.\<close>

definition frameCount :: "jsval \<Rightarrow> jsval" where
  "frameCount result =
     js_or (opt_prop (opt_prop (opt_prop (own_prop result ''results'') ''A'') ''frames'')
              ''length'')
           (JNum 0)"

definition summary :: "jsval \<Rightarrow> string" where
  "summary result =
     ''Query executed successfully. Returned '' @ to_string (frameCount result)
       @ '' data frames.''"

definition query_output :: "json_lib \<Rightarrow> jsval \<Rightarrow> jsval \<Rightarrow> jsval \<Rightarrow> jsval \<Rightarrow> jsval" where
  "query_output lib datasourceUid query timeRange result =
     JObj [(''content'', JArr [
        JObj [(''type'', JStr ''text''),
              (''text'', JStr (
                 ''**Query Results Summary**'' @ nl @ nl @ summary result @ nl @ nl @
                 ''**Datasource**: '' @ to_string datasourceUid @ nl @
                 ''**Query**: '' @ stringify_pretty lib query @ nl @
                 ''**Time Range**: ''
                   @ to_string (js_or (opt_prop timeRange ''from'') (JStr ''now-1h''))
                   @ '' to ''
                   @ to_string (js_or (opt_prop timeRange ''to'') (JStr ''now'')) @ nl @ nl @
                 ''**Data Frames**: '' @ to_string (frameCount result)))],
        JObj [(''type'', JStr ''text''),
              (''text'', JStr (
                 ''**Raw Data**:'' @ nl @ ''```json'' @ nl @ stringify_pretty lib result @ nl
                   @ ''```''))]])]"

definition queryDatasource ::
  "'w platform \<Rightarrow> json_lib \<Rightarrow> custom_config \<Rightarrow> jsval \<Rightarrow> 'w gw_state
     \<Rightarrow> 'w gw_state \<times> (jsval + jsval)" where
  "queryDatasource pf lib cc params s =
     (if nullish params
      then (s, Inl (JErr ''TypeError''
                      (''Cannot destructure property 'datasourceUid' of 'params' as it is ''
                         @ to_string params @ ''.'')))
      else
        (let datasourceUid = own_prop params ''datasourceUid'';
             query = own_prop params ''query'';
             timeRange = own_prop params ''timeRange'';
             maxDataPoints = own_prop params ''maxDataPoints''
         in case do_fetch pf
                   (query_fetch cc (queryRequest datasourceUid query timeRange maxDataPoints)) s of
              (s1, Inl e) \<Rightarrow> (s1, Inl e)
            | (s1, Inr response) \<Rightarrow>
                if \<not> ok response
                then (case body response of
                        Inl e \<Rightarrow> (s1, Inl e)
                      | Inr errorText \<Rightarrow>
                          (s1, Inl (mk_error
                             (''Grafana query failed: '' @ show_nat (status response) @ '' ''
                                @ statusText response @ '' - '' @ errorText))))
                else (case response_json lib response of
                        Inl e \<Rightarrow> (s1, Inl e)
                      | Inr result \<Rightarrow>
                          (case get_prop result ''results'' of
                             Inl e \<Rightarrow> (s1, Inl e)
                           | Inr r \<Rightarrow>
                               (s1, Inr (query_output lib datasourceUid query timeRange
                                           result))))))"

text \<open>
  \<open>listDatasourcesDetailed\<close>. Lines 148-228, which turn the parsed datasource list into
  three blocks of text, are the parameter \<open>render\<close> (it throws when the list is not an
  array); the request and the error path, lines 133-146, are modelled here.
\<close>

definition datasources_fetch :: "custom_config \<Rightarrow> http_request" where
  "datasources_fetch cc =
     \<lparr>rq_url = ct_grafanaUrl cc @ ''/api/datasources'', rq_method = GET,
      rq_headers = api_headers cc, rq_body = None\<rparr>"

definition listDatasourcesDetailed ::
  "'w platform \<Rightarrow> json_lib \<Rightarrow> (jsval \<Rightarrow> jsval + jsval) \<Rightarrow> custom_config \<Rightarrow> 'w gw_state
     \<Rightarrow> 'w gw_state \<times> (jsval + jsval)" where
  "listDatasourcesDetailed pf lib render cc s =
     (case do_fetch pf (datasources_fetch cc) s of
        (s1, Inl e) \<Rightarrow> (s1, Inl e)
      | (s1, Inr response) \<Rightarrow>
          if \<not> ok response
          then (case body response of
                  Inl e \<Rightarrow> (s1, Inl e)
                | Inr errorText \<Rightarrow>
                    (s1, Inl (mk_error
                       (''Failed to fetch datasources: '' @ show_nat (status response) @ '' ''
                          @ statusText response @ '' - '' @ errorText))))
          else (case response_json lib response of
                  Inl e \<Rightarrow> (s1, Inl e)
                | Inr datasources \<Rightarrow> (s1, render datasources)))"

text \<open>The \<open>switch\<close> of \<open>handleCustomTool\<close>, lines 15-30; \<open>Inl\<close> is a throw.\<close>

definition dispatch_custom ::
  "'w platform \<Rightarrow> json_lib \<Rightarrow> (jsval \<Rightarrow> jsval + jsval) \<Rightarrow> custom_config \<Rightarrow> jsval \<Rightarrow> jsval
     \<Rightarrow> 'w gw_state \<Rightarrow> 'w gw_state \<times> (jsval + jsval)" where
  "dispatch_custom pf lib render cc method params s =
     (if method = JStr ''initialize'' then (s, Inr handleInitialize)
      else if method = JStr ''tools/list'' then (s, Inr handleToolsList)
      else if method = JStr ''query_datasource'' then queryDatasource pf lib cc params s
      else if method = JStr ''list_datasources_detailed''
           then listDatasourcesDetailed pf lib render cc s
      else (s, Inl (mk_error (''Unknown custom tool: '' @ to_string method))))"

definition result_envelope :: "jsval \<Rightarrow> jsval \<Rightarrow> jsval" where
  "result_envelope rid result =
     JObj [(''jsonrpc'', JStr ''2.0''), (''id'', rid), (''result'', result)]"

text \<open>Lines 38-46: \<open>error instanceof Error ? error.message : 'Unknown error'\<close>.\<close>

definition error_message :: "jsval \<Rightarrow> string" where
  "error_message e = (case e of JErr n m \<Rightarrow> m | _ \<Rightarrow> ''Unknown error'')"

definition error_envelope :: "jsval \<Rightarrow> jsval \<Rightarrow> jsval" where
  "error_envelope rid e =
     JObj [(''jsonrpc'', JStr ''2.0''), (''id'', rid),
           (''error'', JObj [(''code'', JNum (- 1)),
                             (''message'', JStr (error_message e)),
                             (''data'', e)])]"

text \<open>
  \<open>handleCustomTool\<close>. The destructuring of the request on line 10 is outside the
  \<open>try\<close> and throws on \<open>null\<close> and \<open>undefined\<close>; every later throw is caught and turned
  into an error envelope.
\<close>

definition handleCustomTool ::
  "'w platform \<Rightarrow> json_lib \<Rightarrow> (jsval \<Rightarrow> jsval + jsval) \<Rightarrow> custom_config \<Rightarrow> jsval
     \<Rightarrow> 'w gw_state \<Rightarrow> 'w gw_state \<times> (jsval + jsval)" where
  "handleCustomTool pf lib render cc request s =
     (if nullish request
      then (s, Inl (JErr ''TypeError''
                      (''Cannot destructure property 'method' of 'request' as it is ''
                         @ to_string request @ ''.'')))
      else
        (let method = own_prop request ''method'';
             params = own_prop request ''params'';
             rid = own_prop request ''id''
         in case dispatch_custom pf lib render cc method params s of
              (s1, Inr result) \<Rightarrow> (s1, Inr (result_envelope rid result))
            | (s1, Inl e) \<Rightarrow> (s1, Inr (error_envelope rid e))))"

definition isCustomTool :: "jsval \<Rightarrow> bool" where
  "isCustomTool method =
     (method = JStr ''query_datasource'' \<or> method = JStr ''list_datasources_detailed'')"

section \<open>The HTTP surface (index.ts)\<close>

text \<open>
  The file \<open>index.ts\<close> holds two versions of the server, one after the other. The
  handlers modelled here are those of the first (lines 1-333), in which each route does
  its own checks and no middleware is installed.
\<close>

text \<open>
  An inbound request, as the handlers read it: the \<open>authorization\<close> and
  \<open>mcp-session-id\<close> headers, and the outcome of \<open>c.req.json()\<close> (the parsed body, or
  the error it throws).
\<close>

record inbound =
  in_authorization :: "string option"
  in_session :: "string option"
  in_json :: "jsval + jsval"

text \<open>
  \<open>c.json(v, status)\<close>: the serialisation of \<open>v\<close> with the given status; of the headers
  that the framework sets, the content type is kept.
\<close>

definition c_json :: "jsval \<Rightarrow> nat \<Rightarrow> gw_response" where
  "c_json v st =
     \<lparr>gw_status = st, gw_statusText = [], gw_headers = json_headers, gw_body = Json v\<rparr>"

definition oauth_error :: "string \<Rightarrow> string \<Rightarrow> jsval" where
  "oauth_error err descr = JObj [(''error'', JStr err), (''error_description'', JStr descr)]"

text \<open>The two descriptors that the \<open>tools/list\<close> handler appends (lines 196-235).\<close>

definition localTools :: "jsval list" where
  \<open>localTools =
     [JObj [(''name'', JStr ''list_datasources_detailed''),
            (''description'', JStr ''List all Grafana datasources with detailed information including query examples for Azure Monitor (KQL), Prometheus (PromQL), SQL databases, and more''),
            (''inputSchema'', JObj [
               (''type'', JStr ''object''),
               (''properties'', JObj []),
               (''required'', JArr [])])],
      JObj [(''name'', JStr ''query_datasource''),
            (''description'', JStr ''Query any Grafana datasource using native query formats (KQL for Azure Monitor, PromQL for Prometheus, SQL for databases, etc.)''),
            (''inputSchema'', JObj [
               (''type'', JStr ''object''),
               (''properties'', JObj [
                  (''datasourceUid'', JObj [
                     (''type'', JStr ''string''),
                     (''description'', JStr ''The UID of the datasource to query'')]),
                  (''query'', JObj [
                     (''type'', JStr ''object''),
                     (''description'', JStr ''Query object in native format (e.g., {kusto: "KQL query"} for Azure Monitor, {expr: "PromQL"} for Prometheus)'')]),
                  (''timeRange'', JObj [
                     (''type'', JStr ''object''),
                     (''properties'', JObj [
                        (''from'', JObj [(''type'', JStr ''string''),
                                         (''description'', JStr ''Start time (e.g., "now-1h")'')]),
                        (''to'', JObj [(''type'', JStr ''string''),
                                       (''description'', JStr ''End time (e.g., "now")'')])])]),
                  (''maxDataPoints'', JObj [
                     (''type'', JStr ''number''),
                     (''description'', JStr ''Maximum number of data points to return'')])]),
               (''required'', JArr [JStr ''datasourceUid'', JStr ''query''])])]]\<close>

text \<open>\<open>await response.text()\<close> on a response of the proxy.\<close>

definition gw_text :: "json_lib \<Rightarrow> gw_response \<Rightarrow> jsval + string" where
  "gw_text lib r =
     (case gw_body r of
        Text t \<Rightarrow> Inr t
      | Json v \<Rightarrow> Inr (stringify lib v)
      | Piped b \<Rightarrow> b)"

definition combine_failed :: "jsval \<Rightarrow> gw_response" where
  "combine_failed e =
     c_json (oauth_error ''internal_error'' (''Failed to combine tools: '' @ to_string e)) 500"

text \<open>
  Lines 172-266, the \<open>tools/list\<close> branch. \<open>hmr\<close> is \<open>grafanaProxy.handleMcpRequest\<close>:
  that of \<open>GrafanaMcpHttpProxy\<close> above when the transport is \<open>http\<close>, that of
  \<open>GrafanaMcpProxy\<close> (not among the files at hand) otherwise.
\<close>

definition tools_list ::
  "json_lib \<Rightarrow> (jsval \<Rightarrow> string option \<Rightarrow> 'w gw_state \<Rightarrow> 'w gw_state \<times> (jsval + gw_response))
     \<Rightarrow> jsval \<Rightarrow> string option \<Rightarrow> 'w gw_state \<Rightarrow> 'w gw_state \<times> gw_response" where
  "tools_list lib hmr reqBody sessionId s =
     (case hmr reqBody sessionId s of
        (s1, Inl e) \<Rightarrow> (s1, combine_failed e)
      | (s1, Inr grafanaResponse) \<Rightarrow>
          (case gw_text lib grafanaResponse of
             Inl e \<Rightarrow> (s1, combine_failed e)
           | Inr responseText \<Rightarrow>
               (let grafanaData =
                      (case parse lib responseText of
                         Inl parseError \<Rightarrow> JObj [(''result'', JObj [(''tools'', JArr [])])]
                       | Inr d \<Rightarrow> d)
                in case get_prop grafanaData ''result'' of
                     Inl e \<Rightarrow> (s1, combine_failed e)
                   | Inr res \<Rightarrow>
                       if truthy res \<and> truthy (own_prop res ''tools'')
                       then (case spread_iter (own_prop res ''tools'') of
                               Inl e \<Rightarrow> (s1, combine_failed e)
                             | Inr grafanaTools \<Rightarrow>
                                 (s1, c_json
                                   (JObj [(''jsonrpc'', JStr ''2.0''),
                                          (''id'', own_prop reqBody ''id''),
                                          (''result'',
                                             JObj [(''tools'',
                                                    JArr (grafanaTools @ localTools))])])
                                   200))
                       else (s1, c_json grafanaData 200))))"

definition request_failed :: gw_response where
  "request_failed =
     c_json (oauth_error ''internal_error'' ''Failed to process MCP request'') 500"

text \<open>Lines 151-278: what the POST handler does once the token has been accepted.\<close>

definition post_dispatch ::
  "'w platform \<Rightarrow> json_lib \<Rightarrow> (jsval \<Rightarrow> jsval + jsval) \<Rightarrow> custom_config
     \<Rightarrow> (jsval \<Rightarrow> string option \<Rightarrow> 'w gw_state \<Rightarrow> 'w gw_state \<times> (jsval + gw_response))
     \<Rightarrow> inbound \<Rightarrow> 'w gw_state \<Rightarrow> 'w gw_state \<times> gw_response" where
  "post_dispatch pf lib render cc hmr req s =
     (case in_json req of
        Inl e \<Rightarrow> (s, request_failed)
      | Inr reqBody \<Rightarrow>
          (case get_prop reqBody ''method'' of
             Inl e \<Rightarrow> (s, request_failed)
           | Inr method \<Rightarrow>
               if method = JStr ''tools/call''
                  \<and> truthy (opt_prop (own_prop reqBody ''params'') ''name'')
                  \<and> isCustomTool (own_prop (own_prop reqBody ''params'') ''name'')
               then
                 (let params = own_prop reqBody ''params'';
                      customRequest =
                        JObj [(''method'', own_prop params ''name''),
                              (''params'', js_or (own_prop params ''arguments'') (JObj [])),
                              (''id'', own_prop reqBody ''id'')]
                  in case handleCustomTool pf lib render cc customRequest s of
                       (s1, Inl e) \<Rightarrow> (s1, request_failed)
                     | (s1, Inr response) \<Rightarrow> (s1, c_json response 200))
               else if method = JStr ''tools/list''
               then tools_list lib hmr reqBody (in_session req) s
               else (case hmr reqBody (in_session req) s of
                       (s1, Inl e) \<Rightarrow> (s1, request_failed)
                     | (s1, Inr response) \<Rightarrow> (s1, response))))"

definition unauthorized :: "string \<Rightarrow> gw_response" where
  "unauthorized descr = c_json (oauth_error ''unauthorized'' descr) 401"

text \<open>Lines 128-279, the handler of \<open>POST /\<close>.\<close>

definition app_post ::
  "'w platform \<Rightarrow> json_lib \<Rightarrow> (jsval \<Rightarrow> jsval + jsval) \<Rightarrow> custom_config
     \<Rightarrow> (jsval \<Rightarrow> string option \<Rightarrow> 'w gw_state \<Rightarrow> 'w gw_state \<times> (jsval + gw_response))
     \<Rightarrow> inbound \<Rightarrow> 'w gw_state \<Rightarrow> 'w gw_state \<times> gw_response" where
  "app_post pf lib render cc hmr req s =
     (case in_authorization req of
        None \<Rightarrow> (s, unauthorized ''Missing or invalid authorization header'')
      | Some authHeader \<Rightarrow>
          if authHeader = [] \<or> \<not> prefix ''Bearer '' authHeader
          then (s, unauthorized ''Missing or invalid authorization header'')
          else
            (let token = drop 7 authHeader
             in case validateToken pf (world s) token of
                  (w1, Inl e) \<Rightarrow>
                    (s\<lparr>world := w1\<rparr>, unauthorized ''Invalid or expired access token'')
                | (w1, Inr claims) \<Rightarrow>
                    post_dispatch pf lib render cc hmr req (s\<lparr>world := w1\<rparr>)))"

text \<open>
  Lines 282-317, the handler of \<open>DELETE /\<close>. \<open>mcpTransport\<close> is the configured transport
  and \<open>envPort\<close> the value of \<open>parseInt(process.env.MCP_SERVER_PORT || '3001')\<close>, with
  \<open>None\<close> for \<open>NaN\<close>.
\<close>

record app_config =
  mcpTransport :: string
  envPort :: "nat option"

definition delete_url :: "app_config \<Rightarrow> string" where
  "delete_url ac =
     ''http://localhost:'' @ (case envPort ac of None \<Rightarrow> ''NaN'' | Some p \<Rightarrow> show_nat p)
       @ ''/mcp''"

text \<open>
  \<open>response.body\<close> of a response to a DELETE: \<open>null\<close> when the status is a null body
  status, the stream of the body otherwise.
\<close>

definition response_body :: "http_response \<Rightarrow> payload option" where
  "response_body r = (if null_body_status (status r) then None else Some (Piped (body r)))"

definition delete_fetch :: "app_config \<Rightarrow> inbound \<Rightarrow> http_request" where
  "delete_fetch ac req =
     \<lparr>rq_url = delete_url ac, rq_method = DELETE,
      rq_headers = session_header (in_session req), rq_body = None\<rparr>"

definition app_delete ::
  "'w platform \<Rightarrow> app_config \<Rightarrow> inbound \<Rightarrow> 'w gw_state \<Rightarrow> 'w gw_state \<times> gw_response" where
  "app_delete pf ac req s =
     (if mcpTransport ac = ''http''
      then (case do_fetch pf (delete_fetch ac req) s of
              (s1, Inl e) \<Rightarrow>
                (s1, c_json (oauth_error ''internal_error'' ''Failed to terminate session'') 500)
            | (s1, Inr response) \<Rightarrow>
                (case new_Response (response_body response) (status response) []
                        (headers response) of
                   Inl e \<Rightarrow>
                     (s1, c_json (oauth_error ''internal_error'' ''Failed to terminate session'')
                            500)
                 | Inr r \<Rightarrow> (s1, r)))
      else (s, c_json (JObj [(''error'', JStr ''not_supported'')]) 400))"

section \<open>Vocabulary of the claims\<close>

text \<open>
  The name of a catalog entry; an upstream call that failed (it threw, or its status is
  not 2xx); and the one request that each local tool sends upstream.
\<close>

definition tool_name :: "jsval \<Rightarrow> jsval" where
  "tool_name t = opt_prop t ''name''"

definition upstream_failed :: "jsval + http_response \<Rightarrow> bool" where
  "upstream_failed r = (case r of Inl e \<Rightarrow> True | Inr response \<Rightarrow> \<not> ok response)"

definition tool_request :: "custom_config \<Rightarrow> string \<Rightarrow> jsval \<Rightarrow> http_request" where
  "tool_request cc tool args =
     (if tool = ''query_datasource''
      then query_fetch cc (queryRequest (own_prop args ''datasourceUid'') (own_prop args ''query'')
                             (own_prop args ''timeRange'') (own_prop args ''maxDataPoints''))
      else datasources_fetch cc)"

section \<open>Concrete environments\<close>

text \<open>
  Environments, states and requests at which the theorems below are instantiated. The
  state of each environment counts the requests it has served; sleeping adds the
  milliseconds. The JSON libraries know the one text their backend sends.
\<close>

definition reply :: "nat \<Rightarrow> string \<Rightarrow> string \<Rightarrow> string \<Rightarrow> http_response" where
  "reply st stt ctype txt =
     \<lparr>status = st, statusText = stt, headers = [(''Content-Type'', ctype)], body = Inr txt\<rparr>"

text \<open>
  \<open>String.prototype.trim\<close> on a text in UTF-8: it strips, at both ends, the code points
  of ECMAScript's WhiteSpace and LineTerminator (tab, line feed, vertical tab, form feed,
  carriage return, space, U+00A0, U+1680, U+2000 to U+200A, U+2028, U+2029, U+202F,
  U+205F, U+3000 and U+FEFF), each given here by its encoding.
\<close>

definition white_space :: "string list" where
  "white_space =
     map (\<lambda>c. [c]) [CHR 0x09, CHR 0x0A, CHR 0x0B, CHR 0x0C, CHR 0x0D, CHR 0x20]
     @ [[CHR 0xC2, CHR 0xA0], [CHR 0xE1, CHR 0x9A, CHR 0x80]]
     @ map (\<lambda>c. [CHR 0xE2, CHR 0x80, c])
         [CHR 0x80, CHR 0x81, CHR 0x82, CHR 0x83, CHR 0x84, CHR 0x85, CHR 0x86, CHR 0x87,
          CHR 0x88, CHR 0x89, CHR 0x8A, CHR 0xA8, CHR 0xA9, CHR 0xAF]
     @ [[CHR 0xE2, CHR 0x81, CHR 0x9F], [CHR 0xE3, CHR 0x80, CHR 0x80],
        [CHR 0xEF, CHR 0xBB, CHR 0xBF]]"

function strip :: "string list \<Rightarrow> string \<Rightarrow> string" where
  "strip ws s =
     (case find (\<lambda>w. w \<noteq> [] \<and> prefix w s) ws of
        None \<Rightarrow> s
      | Some w \<Rightarrow> strip ws (drop (length w) s))"
  by pat_completeness auto
termination
proof (relation "measure (\<lambda>(ws, s). length s)")
  show "wf (measure (\<lambda>(ws, s). length s))" by simp
next
  fix ws :: "string list" and s w :: string
  assume "find (\<lambda>w. w \<noteq> [] \<and> prefix w s) ws = Some w"
  then have "w \<noteq> []" "prefix w s" by (auto simp: find_Some_iff)
  then have "length (drop (length w) s) < length s"
    by (cases s) (auto simp: prefix_def)
  then show "((ws, drop (length w) s), (ws, s)) \<in> measure (\<lambda>(ws, s). length s)" by simp
qed

declare strip.simps [simp del]

definition utf8_trim :: "string \<Rightarrow> string" where
  "utf8_trim s = rev (strip (map rev white_space) (rev (strip white_space s)))"

definition accept_all :: "nat \<Rightarrow> string \<Rightarrow> nat \<times> (jsval + jsval)" where
  "accept_all w tok = (w, Inr (JObj [(''sub'', JStr ''user'')]))"

text \<open>No backend listens: every \<open>fetch\<close> throws.\<close>

definition down_platform :: "nat platform" where
  "down_platform =
     \<lparr>fetch = (\<lambda>w rq. (Suc w, Inl (JErr ''TypeError'' ''fetch failed''))),
      spawn = (\<lambda>w cmd args env. w),
      sleep = (\<lambda>w ms. w + ms),
      validateToken = accept_all,
      trim = utf8_trim\<rparr>"

text \<open>A backend that answers every POST with the needs-session failure.\<close>

definition strict_platform :: "nat platform" where
  "strict_platform =
     \<lparr>fetch = (\<lambda>w rq. (Suc w,
                 if rq_method rq = POST
                 then Inr (reply 400 ''Bad Request'' ''text/plain'' ''Invalid session ID'')
                 else Inr (reply 200 ''OK'' ''text/event-stream'' []))),
      spawn = (\<lambda>w cmd args env. w),
      sleep = (\<lambda>w ms. w + ms),
      validateToken = accept_all,
      trim = utf8_trim\<rparr>"




text \<open>A backend, and an upstream API, that answer 500 with a plain text.\<close>

definition failing_platform :: "nat platform" where
  "failing_platform =
     \<lparr>fetch = (\<lambda>w rq. (Suc w,
                 Inr (reply 500 ''Internal Server Error'' ''text/plain'' ''internal error''))),
      spawn = (\<lambda>w cmd args env. w),
      sleep = (\<lambda>w ms. w + ms),
      validateToken = accept_all,
      trim = utf8_trim\<rparr>"

text \<open>A backend that answers 200 with a plain text.\<close>

definition pong_platform :: "nat platform" where
  "pong_platform =
     \<lparr>fetch = (\<lambda>w rq. (Suc w, Inr (reply 200 ''OK'' ''text/plain'' ''pong''))),
      spawn = (\<lambda>w cmd args env. w),
      sleep = (\<lambda>w ms. w + ms),
      validateToken = accept_all,
      trim = utf8_trim\<rparr>"

text \<open>A backend whose catalog has a tool named like a local one.\<close>

definition colliding_text :: string where
  \<open>colliding_text = ''{"jsonrpc":"2.0","id":1,"result":{"tools":[{"name":"query_datasource"}]}}''\<close>

definition colliding_data :: jsval where
  "colliding_data =
     JObj [(''jsonrpc'', JStr ''2.0''), (''id'', JNum 1),
           (''result'', JObj [(''tools'', JArr [JObj [(''name'', JStr ''query_datasource'')]])])]"

definition lib0 :: json_lib where
  "lib0 =
     \<lparr>stringify = (\<lambda>v. ''{}''),
      stringify_pretty = (\<lambda>v. ''{}''),
      parse = (\<lambda>t. if t = colliding_text then Inr colliding_data
                     else Inl (JErr ''SyntaxError'' ''Unexpected token''))\<rparr>"

definition colliding_platform :: "nat platform" where
  "colliding_platform =
     \<lparr>fetch = (\<lambda>w rq. (Suc w, Inr (reply 200 ''OK'' ''application/json'' colliding_text))),
      spawn = (\<lambda>w cmd args env. w),
      sleep = (\<lambda>w ms. w + ms),
      validateToken = accept_all,
      trim = utf8_trim\<rparr>"

text \<open>An upstream API that answers a query with two frames.\<close>

definition frames_text :: string where
  \<open>frames_text = ''{"results":{"A":{"frames":[{},{}]}}}''\<close>

definition frames_data :: jsval where
  "frames_data =
     JObj [(''results'', JObj [(''A'', JObj [(''frames'', JArr [JObj [], JObj []])])])]"

definition lib1 :: json_lib where
  "lib1 =
     \<lparr>stringify = (\<lambda>v. ''{}''),
      stringify_pretty = (\<lambda>v. ''{}''),
      parse = (\<lambda>t. if t = frames_text then Inr frames_data
                     else Inl (JErr ''SyntaxError'' ''Unexpected token''))\<rparr>"

definition metrics_platform :: "nat platform" where
  "metrics_platform =
     \<lparr>fetch = (\<lambda>w rq. (Suc w, Inr (reply 200 ''OK'' ''application/json'' frames_text))),
      spawn = (\<lambda>w cmd args env. w),
      sleep = (\<lambda>w ms. w + ms),
      validateToken = accept_all,
      trim = utf8_trim\<rparr>"

definition render0 :: "jsval \<Rightarrow> jsval + jsval" where
  "render0 ds = Inr (JObj [(''content'', JArr [])])"

definition cfg0 :: proxy_config where
  "cfg0 = \<lparr>grafanaServiceAccountToken = ''glsa_x'', grafanaUrl = ''http://grafana:3000'',
           mcpServerPort = Some 3001\<rparr>"

definition cc0 :: custom_config where
  "cc0 = \<lparr>ct_grafanaUrl = ''http://grafana:3000'', ct_grafanaApiKey = ''glsa_x''\<rparr>"

definition http_app :: app_config where
  "http_app = \<lparr>mcpTransport = ''http'', envPort = Some 3001\<rparr>"

definition fresh :: "nat gw_state" where
  "fresh = \<lparr>world = 0, trace = [], mcpProcess = None, isInitialized = False\<rparr>"

definition ready :: "nat gw_state" where
  "ready = \<lparr>world = 0, trace = [], mcpProcess = Some \<lparr>killed = False\<rparr>,
            isInitialized = True\<rparr>"

definition call7 :: jsval where
  "call7 = JObj [(''jsonrpc'', JStr ''2.0''), (''id'', JNum 7), (''method'', JStr ''tools/call''),
                 (''params'', JObj [(''name'', JStr ''list_dashboards'')])]"

definition list_request :: inbound where
  "list_request =
     \<lparr>in_authorization = Some ''Bearer token'', in_session = None,
      in_json = Inr (JObj [(''jsonrpc'', JStr ''2.0''), (''id'', JNum 1),
                           (''method'', JStr ''tools/list'')])\<rparr>"

definition anonymous_request :: inbound where
  "anonymous_request =
     \<lparr>in_authorization = None, in_session = None,
      in_json = Inr (JObj [(''jsonrpc'', JStr ''2.0''), (''id'', JNum 1),
                           (''method'', JStr ''tools/list'')])\<rparr>"

definition query_call :: inbound where
  "query_call =
     \<lparr>in_authorization = Some ''Bearer token'', in_session = None,
      in_json = Inr (JObj [(''jsonrpc'', JStr ''2.0''), (''id'', JNum 1),
                           (''method'', JStr ''tools/call''),
                           (''params'', JObj [(''name'', JStr ''query_datasource''),
                              (''arguments'', JObj [(''datasourceUid'', JStr ''X''),
                                 (''query'', JObj [(''expr'', JStr ''up'')])])])])\<rparr>"

definition override_params :: jsval where
  "override_params =
     JObj [(''datasourceUid'', JStr ''X''),
           (''query'', JObj [(''datasource'', JObj [(''uid'', JStr ''Y'')]),
                             (''expr'', JStr ''up'')])]"

definition delete_request :: inbound where
  "delete_request =
     \<lparr>in_authorization = None, in_session = Some ''abc'',
      in_json = Inl (JErr ''SyntaxError'' [])\<rparr>"

section \<open>Properties of the string functions\<close>

text \<open>\<open>str_includes s t\<close> holds exactly when \<open>t\<close> occurs in \<open>s\<close> as a contiguous part.\<close>

lemma str_includes_iff: "str_includes s t \<longleftrightarrow> (\<exists>p q. s = p @ t @ q)"
proof (induction s)
  case Nil
  then show ?case by simp
next
  case (Cons c cs)
  show ?case
  proof
    assume "str_includes (c # cs) t"
    then consider "prefix t (c # cs)" | "str_includes cs t" by auto
    then show "\<exists>p q. c # cs = p @ t @ q"
    proof cases
      case 1
      then obtain q where "c # cs = t @ q" by (auto simp: prefix_def)
      then have "c # cs = [] @ t @ q" by simp
      then show ?thesis by blast
    next
      case 2
      with Cons.IH obtain p q where "cs = p @ t @ q" by blast
      then have "c # cs = (c # p) @ t @ q" by simp
      then show ?thesis by blast
    qed
  next
    assume "\<exists>p q. c # cs = p @ t @ q"
    then obtain p q where pq: "c # cs = p @ t @ q" by blast
    show "str_includes (c # cs) t"
    proof (cases p)
      case Nil
      with pq have "prefix t (c # cs)" by (simp add: prefix_def)
      then show ?thesis by simp
    next
      case (Cons a p')
      with pq have "cs = p' @ t @ q" by simp
      with Cons.IH have "str_includes cs t" by blast
      then show ?thesis by simp
    qed
  qed
qed

section \<open>Properties of the readiness probe\<close>

lemma do_fetch_trace: "do_fetch pf rq s = (s1, r) \<Longrightarrow> trace s1 = trace s @ [Fetch rq]"
  by (auto simp: do_fetch_def split: prod.splits)

lemma attempt_sse_trace:
  "attempt_sse pf u s = (s1, b) \<Longrightarrow> trace s1 = trace s @ [Fetch (probe_get u)]"
  by (auto simp: attempt_sse_def Let_def split: prod.splits sum.splits dest: do_fetch_trace)

lemma attempt_trace:
  "attempt pf u s = (s1, b) \<Longrightarrow>
     trace s1 = trace s @ [Fetch (probe_post u)]
     \<or> trace s1 = trace s @ [Fetch (probe_post u), Fetch (probe_get u)]"
  by (auto simp: attempt_def Let_def split: prod.splits sum.splits if_splits
           dest!: do_fetch_trace attempt_sse_trace)

lemma attempt_log:
  "attempt pf u s = (s1, b) \<Longrightarrow>
     \<exists>tr. trace s1 = trace s @ tr \<and> fetches POST tr = 1 \<and> sleeps tr = 0"
  by (drule attempt_trace) (auto simp: fetches_def sleeps_def probe_post_def probe_get_def)

text \<open>
  The loop from counter \<open>i\<close> on: it returns after at most \<open>10 - i\<close> passes, each pass
  posting one handshake, with one sleep of 500 ms after each pass that did not confirm.
\<close>

lemma waitLoop_log:
  "i \<le> 10 \<Longrightarrow> waitLoop pf u i s = (s', r) \<Longrightarrow>
     \<exists>tr. trace s' = trace s @ tr
        \<and> (\<forall>ev \<in> set tr. is_sleep ev \<longrightarrow> ev = Sleep 500)
        \<and> (r = Inr () \<and> 1 \<le> fetches POST tr \<and> fetches POST tr \<le> 10 - i
               \<and> sleeps tr + 1 = fetches POST tr
           \<or> r = Inl (JErr ''Error'' ''MCP server failed to start'')
               \<and> fetches POST tr = 10 - i \<and> sleeps tr = 10 - i)"
proof (induction pf u i s arbitrary: s' r rule: waitLoop.induct)
  case (1 pf u i s)
  show ?case
  proof (cases "i < 10")
    case False
    then have "waitLoop pf u i s = (s, Inl (JErr ''Error'' ''MCP server failed to start''))"
      by (subst waitLoop.simps) (simp add: maxRetries_def)
    with "1.prems" False
    have "s' = s" "r = Inl (JErr ''Error'' ''MCP server failed to start'')" "i = 10"
      by simp_all
    then show ?thesis
      by (simp add: fetches_def sleeps_def)
  next
    case True
    obtain s1 b where a: "attempt pf u s = (s1, b)" by (cases "attempt pf u s")
    from attempt_log[OF a] obtain tr1 where
      tr1: "trace s1 = trace s @ tr1" "fetches POST tr1 = 1" "sleeps tr1 = 0" by blast
    have nosleep: "\<forall>ev \<in> set tr1. \<not> is_sleep ev"
      using tr1(3) by (auto simp: sleeps_def filter_empty_conv)
    show ?thesis
    proof (cases b)
      case True
      with \<open>i < 10\<close> a have "waitLoop pf u i s = (s1, Inr ())"
        by (subst waitLoop.simps) (simp add: maxRetries_def)
      with "1.prems" have "s' = s1" "r = Inr ()" by simp_all
      with tr1 nosleep \<open>i < 10\<close> show ?thesis by auto
    next
      case False
      let ?s2 = "do_sleep pf retryDelayMs s1"
      from False \<open>i < 10\<close> a
      have "waitLoop pf u i s = waitLoop pf u (i + 1) ?s2"
        by (subst waitLoop.simps) (simp add: maxRetries_def)
      with "1.prems" have rec: "waitLoop pf u (i + 1) ?s2 = (s', r)" by simp
      have "\<exists>tr. trace s' = trace ?s2 @ tr
        \<and> (\<forall>ev \<in> set tr. is_sleep ev \<longrightarrow> ev = Sleep 500)
        \<and> (r = Inr () \<and> 1 \<le> fetches POST tr \<and> fetches POST tr \<le> 10 - (i + 1)
               \<and> sleeps tr + 1 = fetches POST tr
           \<or> r = Inl (JErr ''Error'' ''MCP server failed to start'')
               \<and> fetches POST tr = 10 - (i + 1) \<and> sleeps tr = 10 - (i + 1))"
        using "1.IH"[OF _ a[symmetric] _ _ rec] \<open>i < 10\<close> False
        by (simp add: maxRetries_def)
      then obtain tr2 where tr2: "trace s' = trace ?s2 @ tr2"
        "\<forall>ev \<in> set tr2. is_sleep ev \<longrightarrow> ev = Sleep 500"
        "r = Inr () \<and> 1 \<le> fetches POST tr2 \<and> fetches POST tr2 \<le> 10 - (i + 1)
               \<and> sleeps tr2 + 1 = fetches POST tr2
           \<or> r = Inl (JErr ''Error'' ''MCP server failed to start'')
               \<and> fetches POST tr2 = 10 - (i + 1) \<and> sleeps tr2 = 10 - (i + 1)" by blast
      have s2: "trace ?s2 = trace s @ tr1 @ [Sleep 500]"
        by (simp add: do_sleep_def tr1 retryDelayMs_def)
      let ?tr = "tr1 @ [Sleep 500] @ tr2"
      have "trace s' = trace s @ ?tr" using tr2(1) s2 by simp
      moreover have "\<forall>ev \<in> set ?tr. is_sleep ev \<longrightarrow> ev = Sleep 500"
        using nosleep tr2(2) by auto
      moreover have "fetches POST ?tr = 1 + fetches POST tr2" "sleeps ?tr = 1 + sleeps tr2"
        using tr1 by (simp_all add: fetches_def sleeps_def)
      ultimately show ?thesis using tr2(3) \<open>i < 10\<close>
        by (intro exI[of _ ?tr]) auto
    qed
  qed
qed

lemma waitLoop_never_ready:
  "\<forall>t. \<not> snd (attempt pf u t) \<Longrightarrow>
     snd (waitLoop pf u i s) = Inl (JErr ''Error'' ''MCP server failed to start'')"
proof (induction pf u i s rule: waitLoop.induct)
  case (1 pf u i s)
  obtain s1 b where a: "attempt pf u s = (s1, b)" by (cases "attempt pf u s")
  with "1.prems" have b: "\<not> b" by (metis snd_conv)
  show ?case
  proof (cases "i < maxRetries")
    case True
    with a b have "waitLoop pf u i s = waitLoop pf u (i + 1) (do_sleep pf retryDelayMs s1)"
      by (subst waitLoop.simps) simp
    moreover have "snd (waitLoop pf u (i + 1) (do_sleep pf retryDelayMs s1))
        = Inl (JErr ''Error'' ''MCP server failed to start'')"
      using "1.IH"[OF True a[symmetric] _ "1.prems"] b by simp
    ultimately show ?thesis by simp
  next
    case False
    then show ?thesis by (subst waitLoop.simps) simp
  qed
qed

text \<open>
  Claim C6. \<open>waitForServer\<close> always returns. It posts at most 10 handshakes; every sleep
  it takes lasts 500 ms; when it returns normally it has slept once between each two
  successive attempts; when it throws, it throws \<open>MCP server failed to start\<close> after
  exactly 10 attempts, each followed by one sleep. If no attempt can confirm readiness,
  it throws.
\<close>

theorem waitForServer_bounded:
  "\<exists>s' r tr. waitForServer pf cfg s = (s', r) \<and> trace s' = trace s @ tr
      \<and> fetches POST tr \<le> 10
      \<and> (\<forall>ev \<in> set tr. is_sleep ev \<longrightarrow> ev = Sleep 500)
      \<and> (r = Inr () \<and> 1 \<le> fetches POST tr \<and> sleeps tr + 1 = fetches POST tr
          \<or> r = Inl (JErr ''Error'' ''MCP server failed to start'')
              \<and> fetches POST tr = 10 \<and> sleeps tr = 10)
      \<and> ((\<forall>t. \<not> snd (attempt pf (mcpServerUrl cfg) t))
            \<longrightarrow> r = Inl (JErr ''Error'' ''MCP server failed to start''))"
proof -
  obtain s' r where w: "waitLoop pf (mcpServerUrl cfg) 0 s = (s', r)"
    by (cases "waitLoop pf (mcpServerUrl cfg) 0 s")
  from waitLoop_log[OF _ w] obtain tr where tr: "trace s' = trace s @ tr"
    "\<forall>ev \<in> set tr. is_sleep ev \<longrightarrow> ev = Sleep 500"
    "r = Inr () \<and> 1 \<le> fetches POST tr \<and> fetches POST tr \<le> 10 - 0
               \<and> sleeps tr + 1 = fetches POST tr
           \<or> r = Inl (JErr ''Error'' ''MCP server failed to start'')
               \<and> fetches POST tr = 10 - 0 \<and> sleeps tr = 10 - 0"
    by auto
  have never: "(\<forall>t. \<not> snd (attempt pf (mcpServerUrl cfg) t))
            \<longrightarrow> r = Inl (JErr ''Error'' ''MCP server failed to start'')"
    using waitLoop_never_ready[of pf "mcpServerUrl cfg" 0 s] w by auto
  show ?thesis
    unfolding waitForServer_def using w tr never
    by (intro exI[of _ s'] exI[of _ r] exI[of _ tr]) auto
qed

theorem waitForServer_bounded_witness:
  "snd (waitForServer down_platform cfg0 fresh)
     = Inl (JErr ''Error'' ''MCP server failed to start'')
   \<and> fetches POST (trace (fst (waitForServer down_platform cfg0 fresh))) = 10
   \<and> sleeps (trace (fst (waitForServer down_platform cfg0 fresh))) = 10"
proof -
  have "\<forall>t. \<not> snd (attempt down_platform (mcpServerUrl cfg0) t)"
    by (simp add: attempt_def attempt_sse_def do_fetch_def down_platform_def)
  then show ?thesis
    using waitForServer_bounded[of down_platform cfg0 fresh]
    by (auto simp: fresh_def)
qed

text \<open>
  Claim C7. One attempt confirms readiness exactly when the POST handshake returns a
  2xx status, or it returns status 400 with a body that contains \<open>Invalid session ID\<close>,
  or, neither being the case, the GET probe sent next returns status 200 with a content
  type that contains \<open>text/event-stream\<close>.
\<close>

theorem attempt_ready_iff:
  "snd (attempt pf u s) \<longleftrightarrow>
     (case fetch pf (world s) (probe_post u) of
        (w1, r1) \<Rightarrow>
          (let post_2xx = (case r1 of Inr res \<Rightarrow> ok res | Inl e \<Rightarrow> False);
               post_needs_session =
                 (case r1 of
                    Inr res \<Rightarrow> status res = 400
                      \<and> (case body res of
                            Inr t \<Rightarrow> str_includes t ''Invalid session ID''
                          | Inl e \<Rightarrow> False)
                  | Inl e \<Rightarrow> False);
               sse_ok =
                 (case snd (fetch pf w1 (probe_get u)) of
                    Inr sse \<Rightarrow> status sse = 200
                      \<and> str_includes
                           (toLowerCase (case header_get (headers sse) ''content-type'' of
                                           None \<Rightarrow> [] | Some v \<Rightarrow> v))
                           ''text/event-stream''
                  | Inl e \<Rightarrow> False)
           in post_2xx \<or> post_needs_session
              \<or> (\<not> post_2xx \<and> \<not> post_needs_session \<and> sse_ok)))"
  by (auto simp: attempt_def attempt_sse_def do_fetch_def Let_def
           split: prod.splits sum.splits option.splits)

theorem attempt_ready_iff_witness:
  "snd (attempt strict_platform (mcpServerUrl cfg0) fresh)
   \<and> \<not> snd (attempt down_platform (mcpServerUrl cfg0) fresh)"
  using attempt_ready_iff[of strict_platform "mcpServerUrl cfg0" fresh]
        attempt_ready_iff[of down_platform "mcpServerUrl cfg0" fresh]
  by (simp add: strict_platform_def down_platform_def probe_post_def probe_get_def
                reply_def ok_def fresh_def)

section \<open>Properties of forwarding\<close>





text \<open>
  Claim C1, as the code has it. The envelope is synthesized when the backend answers
  with a status outside 2xx and a non-empty body whose trimmed text does not start with
  an opening brace (and the answer is not the needs-session failure, which is retried
  instead). The returned envelope then carries the error code -32603, the message
  \<open>Internal error\<close> and the trimmed body as data, at status 200; when the id of the
  request is truthy, the envelope carries that id.
\<close>

theorem synthesized_envelope:
  assumes init: "initializeMcpServer pf cfg s = (s0, Inr ())"
    and first: "fetch pf (world s0)
                  (backend_post (mcpServerUrl cfg) (json_headers @ session_header sessionId)
                     requestBody) = (w1, Inr response)"
    and failed: "\<not> ok response"
    and readable: "body response = Inr responseBody" "responseBody \<noteq> []"
              "\<not> prefix ''{'' (trim pf responseBody)"
    and no_retry: "\<not> (status response = 400 \<and> str_includes responseBody ''Invalid session ID'')"
    and not_null: "\<not> nullish requestBody"
  shows "\<exists>rid.
           handleMcpRequest pf cfg requestBody sessionId s =
             (s0\<lparr>world := w1,
                 trace := trace s0 @
                   [Fetch (backend_post (mcpServerUrl cfg)
                             (json_headers @ session_header sessionId) requestBody)]\<rparr>,
              Inr \<lparr>gw_status = 200, gw_statusText = [],
                   gw_headers = [(''Content-Type'', ''application/json'')],
                   gw_body = Json (JObj [(''jsonrpc'', JStr ''2.0''),
                                         (''id'', rid),
                                         (''error'',
                                          JObj [(''code'', JNum (- 32603)),
                                                (''message'', JStr ''Internal error''),
                                                (''data'', JStr (trim pf responseBody))])])\<rparr>)
           \<and> (truthy (own_prop requestBody ''id'') \<longrightarrow> rid = own_prop requestBody ''id'')"
proof -
  let ?rid = "js_or (own_prop requestBody ''id'') (JNum 1)"
  have built: "new_Response (Some (Json (errorResponse (own_prop requestBody ''id'')
                                           (trim pf responseBody)))) 200 [] json_headers
         = Inr \<lparr>gw_status = 200, gw_statusText = [],
                gw_headers = [(''Content-Type'', ''application/json'')],
                gw_body = Json (JObj [(''jsonrpc'', JStr ''2.0''),
                                      (''id'', ?rid),
                                      (''error'',
                                       JObj [(''code'', JNum (- 32603)),
                                             (''message'', JStr ''Internal error''),
                                             (''data'', JStr (trim pf responseBody))])])\<rparr>"
    by (simp add: new_Response_def null_body_status_def reason_phrase_def errorResponse_def
                  json_headers_def)
  have "handleMcpRequest pf cfg requestBody sessionId s =
             (s0\<lparr>world := w1,
                 trace := trace s0 @
                   [Fetch (backend_post (mcpServerUrl cfg)
                             (json_headers @ session_header sessionId) requestBody)]\<rparr>,
              new_Response (Some (Json (errorResponse (own_prop requestBody ''id'')
                                          (trim pf responseBody)))) 200 [] json_headers)"
    using assms
    by (auto simp: handleMcpRequest_def do_fetch_def get_prop_def)
  moreover have "truthy (own_prop requestBody ''id'') \<longrightarrow> ?rid = own_prop requestBody ''id''"
    by (simp add: js_or_def)
  ultimately show ?thesis
    unfolding built by (intro exI[of _ ?rid]) simp
qed

lemma trim_internal_error: "utf8_trim ''internal error'' = ''internal error''"
proof -
  have front: "strip white_space ''internal error'' = ''internal error''"
    by (subst strip.simps) (simp add: white_space_def)
  have rear: "strip (map rev white_space) (rev ''internal error'') = rev ''internal error''"
    by (subst strip.simps) (simp add: white_space_def)
  show ?thesis
    unfolding utf8_trim_def front rear by simp
qed

theorem synthesized_envelope_witness:
  "handleMcpRequest failing_platform cfg0 call7 None ready =
     (ready\<lparr>world := 1,
            trace := [Fetch (backend_post (mcpServerUrl cfg0) json_headers call7)]\<rparr>,
      Inr \<lparr>gw_status = 200, gw_statusText = [],
           gw_headers = [(''Content-Type'', ''application/json'')],
           gw_body = Json (JObj [(''jsonrpc'', JStr ''2.0''),
                                 (''id'', JNum 7),
                                 (''error'', JObj [(''code'', JNum (- 32603)),
                                                   (''message'', JStr ''Internal error''),
                                                   (''data'', JStr ''internal error'')])])\<rparr>)"
proof -
  have init: "initializeMcpServer failing_platform cfg0 ready = (ready, Inr ())"
    by (simp add: initializeMcpServer_def already_running_def ready_def)
  have first: "fetch failing_platform (world ready)
                  (backend_post (mcpServerUrl cfg0) (json_headers @ session_header None) call7)
                 = (1, Inr (reply 500 ''Internal Server Error'' ''text/plain'' ''internal error''))"
    by (simp add: failing_platform_def ready_def)
  have tr: "trim failing_platform ''internal error'' = ''internal error''"
    by (simp add: failing_platform_def trim_internal_error)
  have rid: "truthy (own_prop call7 ''id'')" "own_prop call7 ''id'' = JNum 7"
    by (simp_all add: call7_def)
  from synthesized_envelope[OF init first, of "''internal error''"] rid
  show ?thesis
    by (auto simp: reply_def ok_def tr nullish_def call7_def session_header_def ready_def)
qed

text \<open>
  A body that is no envelope is not always replaced: the plain text \<open>pong\<close> answered
  with status 200 is handed on as it is.
\<close>

theorem passes_through_counterexample:
  "handleMcpRequest pong_platform cfg0 call7 None ready =
     (ready\<lparr>world := 1,
            trace := [Fetch (backend_post (mcpServerUrl cfg0) json_headers call7)]\<rparr>,
      Inr \<lparr>gw_status = 200, gw_statusText = ''OK'',
           gw_headers = [(''Content-Type'', ''text/plain'')],
           gw_body = Text ''pong''\<rparr>)"
  by (simp add: handleMcpRequest_def initializeMcpServer_def already_running_def ready_def
                do_fetch_def pong_platform_def reply_def ok_def relay_response_def
                new_Response_def null_body_status_def reason_phrase_def session_header_def
                json_headers_def)

section \<open>Properties of the HTTP surface\<close>

lemma app_post_authorized:
  assumes "in_authorization req = Some h" "prefix ''Bearer '' h"
    and "validateToken pf (world s) (drop 7 h) = (w1, Inr claims)"
  shows "app_post pf lib render cc hmr req s
           = post_dispatch pf lib render cc hmr req (s\<lparr>world := w1\<rparr>)"
  using assms by (auto simp: app_post_def)

text \<open>
  Claim C4. A POST without an \<open>authorization\<close> header, with one that does not start
  with \<open>Bearer \<close>, or with a token that \<open>validateToken\<close> refuses is answered with
  status 401 and a JSON body that has the members \<open>error\<close> and \<open>error_description\<close>.
  Nothing but the validator has touched the state (no request to the backend or upstream,
  no spawn), and the answer is the same whatever the proxy, the custom tool handler and
  the rest of the platform are.
\<close>

theorem unauthenticated_rejected:
  assumes "in_authorization req = None
           \<or> (\<exists>h. in_authorization req = Some h
                  \<and> (\<not> prefix ''Bearer '' h
                      \<or> (\<exists>e. snd (validateToken pf (world s) (drop 7 h)) = Inl e)))"
  shows "\<exists>descr w.
           app_post pf lib render cc hmr req s =
             (s\<lparr>world := w\<rparr>,
              \<lparr>gw_status = 401, gw_statusText = [],
               gw_headers = [(''Content-Type'', ''application/json'')],
               gw_body = Json (JObj [(''error'', JStr ''unauthorized''),
                                     (''error_description'', JStr descr)])\<rparr>)
           \<and> (w = world s
                \<or> (\<exists>h. in_authorization req = Some h
                       \<and> w = fst (validateToken pf (world s) (drop 7 h))))
           \<and> app_post pf lib render cc hmr req s
               = app_post (pf\<lparr>fetch := f', spawn := sp', sleep := sl'\<rparr>) lib' render' cc' hmr' req s"
proof -
  let ?pf' = "pf\<lparr>fetch := f', spawn := sp', sleep := sl'\<rparr>"
  let ?missing = "unauthorized ''Missing or invalid authorization header''"
  let ?invalid = "unauthorized ''Invalid or expired access token''"
  consider (none) "in_authorization req = None"
    | (malformed) h where "in_authorization req = Some h" "\<not> prefix ''Bearer '' h"
    | (refused) h e where "in_authorization req = Some h" "prefix ''Bearer '' h"
        "snd (validateToken pf (world s) (drop 7 h)) = Inl e"
    using assms by (cases "in_authorization req") auto
  then show ?thesis
  proof cases
    case none
    then have "app_post pf lib render cc hmr req s = (s\<lparr>world := world s\<rparr>, ?missing)"
      "app_post ?pf' lib' render' cc' hmr' req s = (s\<lparr>world := world s\<rparr>, ?missing)"
      by (simp_all add: app_post_def)
    then show ?thesis
      by (intro exI[of _ "''Missing or invalid authorization header''"] exI[of _ "world s"])
         (simp add: unauthorized_def c_json_def oauth_error_def json_headers_def)
  next
    case malformed
    then have "app_post pf lib render cc hmr req s = (s\<lparr>world := world s\<rparr>, ?missing)"
      "app_post ?pf' lib' render' cc' hmr' req s = (s\<lparr>world := world s\<rparr>, ?missing)"
      by (simp_all add: app_post_def)
    then show ?thesis
      by (intro exI[of _ "''Missing or invalid authorization header''"] exI[of _ "world s"])
         (simp add: unauthorized_def c_json_def oauth_error_def json_headers_def)
  next
    case refused
    obtain w1 where v: "validateToken pf (world s) (drop 7 h) = (w1, Inl e)"
      using refused(3) by (cases "validateToken pf (world s) (drop 7 h)") simp
    from refused(2) have ne: "h \<noteq> []" by auto
    from refused(1,2) v ne
    have "app_post pf lib render cc hmr req s = (s\<lparr>world := w1\<rparr>, ?invalid)"
      "app_post ?pf' lib' render' cc' hmr' req s = (s\<lparr>world := w1\<rparr>, ?invalid)"
      by (simp_all add: app_post_def)
    then show ?thesis
      using refused(1) v
      by (intro exI[of _ "''Invalid or expired access token''"] exI[of _ w1])
         (simp add: unauthorized_def c_json_def oauth_error_def json_headers_def)
  qed
qed

theorem unauthenticated_rejected_witness:
  "app_post colliding_platform lib0 render0 cc0 (handleMcpRequest colliding_platform cfg0)
     anonymous_request ready =
     (ready,
      \<lparr>gw_status = 401, gw_statusText = [],
       gw_headers = [(''Content-Type'', ''application/json'')],
       gw_body = Json (JObj [(''error'', JStr ''unauthorized''),
                             (''error_description'',
                              JStr ''Missing or invalid authorization header'')])\<rparr>)"
proof -
  have none: "in_authorization anonymous_request = None"
    by (simp add: anonymous_request_def)
  have "app_post colliding_platform lib0 render0 cc0 (handleMcpRequest colliding_platform cfg0)
          anonymous_request ready
        = (ready, unauthorized ''Missing or invalid authorization header'')"
    by (simp add: app_post_def none)
  with unauthenticated_rejected[of anonymous_request colliding_platform ready lib0 render0 cc0
         "handleMcpRequest colliding_platform cfg0"]
  show ?thesis
    using none by (auto simp: unauthorized_def c_json_def oauth_error_def json_headers_def)
qed

text \<open>
  Claim C10. The handler of DELETE does not read the \<open>authorization\<close> header and does
  not call the validator: two requests that differ in that header only are treated
  alike, and under the \<open>http\<close> transport the one effect is a DELETE request to the
  backend, with the session header if the inbound request has a non-empty one.
\<close>

theorem delete_ignores_authorization:
  "app_delete pf ac (req\<lparr>in_authorization := a\<rparr>) s
     = app_delete pf ac (req\<lparr>in_authorization := b\<rparr>) s
   \<and> app_delete (pf\<lparr>validateToken := v\<rparr>) ac req s = app_delete pf ac req s
   \<and> (mcpTransport ac = ''http'' \<longrightarrow>
        trace (fst (app_delete pf ac req s))
          = trace s @ [Fetch \<lparr>rq_url = delete_url ac, rq_method = DELETE,
                              rq_headers = session_header (in_session req),
                              rq_body = None\<rparr>])"
  by (auto simp: app_delete_def delete_fetch_def do_fetch_def split: prod.splits sum.splits)

theorem delete_ignores_authorization_witness:
  "app_delete strict_platform http_app (delete_request\<lparr>in_authorization := None\<rparr>) ready
     = app_delete strict_platform http_app
         (delete_request\<lparr>in_authorization := Some ''Bearer token''\<rparr>) ready
   \<and> trace (fst (app_delete strict_platform http_app delete_request ready))
       = [Fetch \<lparr>rq_url = delete_url http_app, rq_method = DELETE,
                 rq_headers = [(''mcp-session-id'', ''abc'')], rq_body = None\<rparr>]"
proof -
  note inst = delete_ignores_authorization[where pf = strict_platform and ac = http_app
          and req = delete_request and a = None and b = "Some ''Bearer token''" and s = ready
          and v = accept_all]
  have http: "mcpTransport http_app = ''http''"
    by (simp add: http_app_def)
  from inst have "trace (fst (app_delete strict_platform http_app delete_request ready))
          = trace ready @ [Fetch \<lparr>rq_url = delete_url http_app, rq_method = DELETE,
                              rq_headers = session_header (in_session delete_request),
                              rq_body = None\<rparr>]"
    using http by (elim conjE) simp
  moreover from inst
  have "app_delete strict_platform http_app (delete_request\<lparr>in_authorization := None\<rparr>) ready
     = app_delete strict_platform http_app
         (delete_request\<lparr>in_authorization := Some ''Bearer token''\<rparr>) ready"
    by (elim conjE)
  ultimately show ?thesis
    by (simp add: delete_request_def session_header_def ready_def)
qed

section \<open>Properties of the custom tools\<close>

lemma handleCustomTool_total:
  "\<not> nullish request \<Longrightarrow>
     \<exists>s' env. handleCustomTool pf lib render cc request s = (s', Inr env)"
  by (auto simp: handleCustomTool_def Let_def split: prod.splits sum.splits)

text \<open>
  The error that a failed upstream call makes a tool throw: the error that \<open>fetch\<close>
  threw, the error of reading the body of a non-2xx answer, or the \<open>Error\<close> whose
  message holds the status, the status text and the body of that answer.
\<close>

lemma queryDatasource_failure:
  assumes "\<not> nullish params"
    and "rq = query_fetch cc (queryRequest (own_prop params ''datasourceUid'')
              (own_prop params ''query'') (own_prop params ''timeRange'')
              (own_prop params ''maxDataPoints''))"
    and "fetch pf (world s) rq = (w2, r)" "upstream_failed r"
  shows "queryDatasource pf lib cc params s =
           (s\<lparr>world := w2, trace := trace s @ [Fetch rq]\<rparr>,
            Inl (case r of
                   Inl thrown \<Rightarrow> thrown
                 | Inr response \<Rightarrow>
                     (case body response of
                        Inl unreadable \<Rightarrow> unreadable
                      | Inr errorText \<Rightarrow>
                          JErr ''Error''
                            (''Grafana query failed: '' @ show_nat (status response) @ '' ''
                               @ statusText response @ '' - '' @ errorText))))"
  using assms
  by (auto simp: queryDatasource_def upstream_failed_def do_fetch_def Let_def mk_error_def
           split: sum.splits)

lemma listDatasourcesDetailed_failure:
  assumes "fetch pf (world s) (datasources_fetch cc) = (w2, r)" "upstream_failed r"
  shows "listDatasourcesDetailed pf lib render cc s =
           (s\<lparr>world := w2, trace := trace s @ [Fetch (datasources_fetch cc)]\<rparr>,
            Inl (case r of
                   Inl thrown \<Rightarrow> thrown
                 | Inr response \<Rightarrow>
                     (case body response of
                        Inl unreadable \<Rightarrow> unreadable
                      | Inr errorText \<Rightarrow>
                          JErr ''Error''
                            (''Failed to fetch datasources: '' @ show_nat (status response)
                               @ '' '' @ statusText response @ '' - '' @ errorText))))"
  using assms
  by (auto simp: listDatasourcesDetailed_def upstream_failed_def do_fetch_def mk_error_def
           split: sum.splits)

lemma js_or_obj_not_nullish: "\<not> nullish (js_or v (JObj []))"
  by (cases v) (auto simp: js_or_def nullish_def)

lemma dispatch_custom_failure:
  assumes "tool = ''query_datasource'' \<or> tool = ''list_datasources_detailed''"
    and "\<not> nullish args"
    and "fetch pf (world s) (tool_request cc tool args) = (w2, r)" "upstream_failed r"
  shows "dispatch_custom pf lib render cc (JStr tool) args s =
           (s\<lparr>world := w2, trace := trace s @ [Fetch (tool_request cc tool args)]\<rparr>,
            Inl (case r of
                   Inl thrown \<Rightarrow> thrown
                 | Inr response \<Rightarrow>
                     (case body response of
                        Inl unreadable \<Rightarrow> unreadable
                      | Inr errorText \<Rightarrow>
                          JErr ''Error''
                            ((if tool = ''query_datasource'' then ''Grafana query failed: ''
                              else ''Failed to fetch datasources: '')
                               @ show_nat (status response) @ '' '' @ statusText response
                               @ '' - '' @ errorText))))"
proof -
  from assms(1) show ?thesis
  proof
    assume t: "tool = ''query_datasource''"
    with assms(3) have f: "fetch pf (world s)
           (query_fetch cc (queryRequest (own_prop args ''datasourceUid'')
              (own_prop args ''query'') (own_prop args ''timeRange'')
              (own_prop args ''maxDataPoints''))) = (w2, r)"
      by (simp add: tool_request_def)
    from queryDatasource_failure[OF assms(2) refl f assms(4), of lib] t show ?thesis
      by (simp add: dispatch_custom_def tool_request_def)
  next
    assume t: "tool = ''list_datasources_detailed''"
    with assms(3) have f: "fetch pf (world s) (datasources_fetch cc) = (w2, r)"
      by (simp add: tool_request_def)
    from listDatasourcesDetailed_failure[OF f assms(4), of lib render] t show ?thesis
      by (simp add: dispatch_custom_def tool_request_def)
  qed
qed

text \<open>
  Claim C9. For an authenticated \<open>tools/call\<close> of one of the two local tools whose
  upstream request throws or is answered with a status outside 2xx, the gateway sends
  that one request upstream and answers with status 200 and a JSON-RPC envelope that
  carries the id of the request and an \<open>error\<close> member with code -1, whose \<open>data\<close> is
  the error of the failure and whose \<open>message\<close> is its message: the error that \<open>fetch\<close>
  threw, or an \<open>Error\<close> naming the status, the status text and the body of the upstream
  answer (or the error of reading that body).
\<close>

theorem custom_tool_failure_enveloped:
  assumes auth: "in_authorization req = Some h" "prefix ''Bearer '' h"
                "validateToken pf (world s) (drop 7 h) = (w1, Inr claims)"
    and call: "in_json req = Inr reqBody" "\<not> nullish reqBody"
              "own_prop reqBody ''method'' = JStr ''tools/call''"
              "own_prop (own_prop reqBody ''params'') ''name'' = JStr tool"
    and tool: "tool = ''query_datasource'' \<or> tool = ''list_datasources_detailed''"
    and args: "args = js_or (own_prop (own_prop reqBody ''params'') ''arguments'') (JObj [])"
    and upstream: "fetch pf w1 (tool_request cc tool args) = (w2, r)" "upstream_failed r"
    and failure:
      "e = (case r of
              Inl thrown \<Rightarrow> thrown
            | Inr response \<Rightarrow>
                (case body response of
                   Inl unreadable \<Rightarrow> unreadable
                 | Inr errorText \<Rightarrow>
                     JErr ''Error''
                       ((if tool = ''query_datasource'' then ''Grafana query failed: ''
                         else ''Failed to fetch datasources: '')
                          @ show_nat (status response) @ '' '' @ statusText response
                          @ '' - '' @ errorText)))"
  shows "app_post pf lib render cc hmr req s =
           (s\<lparr>world := w2, trace := trace s @ [Fetch (tool_request cc tool args)]\<rparr>,
            \<lparr>gw_status = 200, gw_statusText = [],
             gw_headers = [(''Content-Type'', ''application/json'')],
             gw_body = Json (JObj [(''jsonrpc'', JStr ''2.0''),
                                   (''id'', own_prop reqBody ''id''),
                                   (''error'', JObj [(''code'', JNum (- 1)),
                                                     (''message'', JStr (error_message e)),
                                                     (''data'', e)])])\<rparr>)"
proof -
  let ?s1 = "s\<lparr>world := w1\<rparr>"
  let ?s2 = "s\<lparr>world := w2, trace := trace s @ [Fetch (tool_request cc tool args)]\<rparr>"
  let ?params = "own_prop reqBody ''params''"
  let ?request = "JObj [(''method'', own_prop ?params ''name''), (''params'', args),
                         (''id'', own_prop reqBody ''id'')]"
  have tool_ne: "tool \<noteq> []" using tool by auto
  have np: "\<not> nullish ?params"
    using call(4) by (auto simp: nullish_def)
  have custom: "isCustomTool (own_prop ?params ''name'')"
    using call(4) tool by (auto simp: isCustomTool_def)
  have name: "truthy (opt_prop ?params ''name'')"
    using np call(4) tool_ne by (simp add: opt_prop_def)
  have na: "\<not> nullish args"
    unfolding args by (rule js_or_obj_not_nullish)
  from upstream(1) have f: "fetch pf (world ?s1) (tool_request cc tool args) = (w2, r)"
    by simp
  have d: "dispatch_custom pf lib render cc (JStr tool) args ?s1 = (?s2, Inl e)"
    using dispatch_custom_failure[OF tool na f upstream(2), of lib render] failure
    by simp
  have h: "handleCustomTool pf lib render cc ?request ?s1
             = (?s2, Inr (error_envelope (own_prop reqBody ''id'') e))"
    using d call(4) by (simp add: handleCustomTool_def nullish_def)
  have "post_dispatch pf lib render cc hmr req ?s1
          = (?s2, c_json (error_envelope (own_prop reqBody ''id'') e) 200)"
    using call(1,2,3) name custom h args
    by (simp add: post_dispatch_def get_prop_def Let_def)
  with app_post_authorized[OF auth]
  have "app_post pf lib render cc hmr req s
          = (?s2, c_json (error_envelope (own_prop reqBody ''id'') e) 200)"
    by simp
  then show ?thesis
    by (simp add: c_json_def error_envelope_def json_headers_def)
qed

theorem custom_tool_failure_enveloped_witness:
  "app_post failing_platform lib0 render0 cc0 (handleMcpRequest failing_platform cfg0)
     query_call ready =
     (ready\<lparr>world := 1,
            trace := [Fetch (tool_request cc0 ''query_datasource''
                               (JObj [(''datasourceUid'', JStr ''X''),
                                      (''query'', JObj [(''expr'', JStr ''up'')])]))]\<rparr>,
      \<lparr>gw_status = 200, gw_statusText = [],
       gw_headers = [(''Content-Type'', ''application/json'')],
       gw_body = Json (JObj [(''jsonrpc'', JStr ''2.0''),
                             (''id'', JNum 1),
                             (''error'',
                              JObj [(''code'', JNum (- 1)),
                                    (''message'',
                                     JStr ''Grafana query failed: 500 Internal Server Error - internal error''),
                                    (''data'',
                                     JErr ''Error''
                                       ''Grafana query failed: 500 Internal Server Error - internal error'')])])\<rparr>)"
proof -
  let ?rb = "JObj [(''jsonrpc'', JStr ''2.0''), (''id'', JNum 1),
                   (''method'', JStr ''tools/call''),
                   (''params'', JObj [(''name'', JStr ''query_datasource''),
                      (''arguments'', JObj [(''datasourceUid'', JStr ''X''),
                         (''query'', JObj [(''expr'', JStr ''up'')])])])]"
  let ?args = "JObj [(''datasourceUid'', JStr ''X''), (''query'', JObj [(''expr'', JStr ''up'')])]"
  let ?r = "reply 500 ''Internal Server Error'' ''text/plain'' ''internal error''"
  have auth: "in_authorization query_call = Some ''Bearer token''"
    "prefix ''Bearer '' ''Bearer token''"
    "validateToken failing_platform (world ready) (drop 7 ''Bearer token'')
       = (0, Inr (JObj [(''sub'', JStr ''user'')]))"
    by (simp_all add: query_call_def failing_platform_def accept_all_def ready_def)
  have call: "in_json query_call = Inr ?rb" "\<not> nullish ?rb"
    "own_prop ?rb ''method'' = JStr ''tools/call''"
    "own_prop (own_prop ?rb ''params'') ''name'' = JStr ''query_datasource''"
    by (simp_all add: query_call_def nullish_def)
  have args: "?args = js_or (own_prop (own_prop ?rb ''params'') ''arguments'') (JObj [])"
    by (simp add: js_or_def)
  have up: "fetch failing_platform 0 (tool_request cc0 ''query_datasource'' ?args)
              = (1, Inr ?r)" "upstream_failed (Inr ?r)"
    by (simp_all add: upstream_failed_def failing_platform_def reply_def ok_def)
  have n: "show_nat 500 = ''500''"
    by (simp add: show_nat.simps digit_def)
  have e: "JErr ''Error'' ''Grafana query failed: 500 Internal Server Error - internal error''
         = (case Inr ?r of
              Inl thrown \<Rightarrow> thrown
            | Inr response \<Rightarrow>
                (case body response of
                   Inl unreadable \<Rightarrow> unreadable
                 | Inr errorText \<Rightarrow>
                     JErr ''Error''
                       ((if ''query_datasource'' = ''query_datasource''
                         then ''Grafana query failed: ''
                         else ''Failed to fetch datasources: '')
                          @ show_nat (status response) @ '' '' @ statusText response
                          @ '' - '' @ errorText)))"
    by (simp add: reply_def n)
  show ?thesis
    using custom_tool_failure_enveloped[where pf = failing_platform and s = ready
            and lib = lib0 and render = render0 and cc = cc0
            and hmr = "handleMcpRequest failing_platform cfg0",
            OF auth call _ args up e]
    by (simp add: error_message_def ready_def)
qed

lemma map_of_fold_update:
  "map_of kvs k = None \<Longrightarrow>
     map_of (fold (\<lambda>(k', x) acc. AList.update k' x acc) kvs ob) k = map_of ob k"
proof (induction kvs arbitrary: ob)
  case Nil
  then show ?case by simp
next
  case (Cons p kvs)
  obtain k' x where p: "p = (k', x)" by (cases p)
  with Cons.prems have "k' \<noteq> k" "map_of kvs k = None" by (auto split: if_splits)
  with Cons.IH[of "AList.update k' x ob"] p show ?case
    by (simp add: update_conv')
qed

lemma map_of_obj_spread:
  "map_of (spread_props v) k = None \<Longrightarrow> map_of (obj_spread ob v) k = map_of ob k"
  by (simp add: obj_spread_def map_of_fold_update)

lemma spread_single:
  "k \<noteq> k' \<Longrightarrow> map_of (spread_props (js_and c (JObj [(k', x)]))) k = None"
  by (cases c) (auto simp: js_and_def)

text \<open>
  When the query object has no member \<open>datasource\<close>, the single query of the request is
  keyed to the given uid and carries \<open>refId: 'A'\<close>.
\<close>

lemma queryRequest_keyed:
  assumes "map_of (spread_props query) ''datasource'' = None"
  shows "\<exists>q. queryRequest datasourceUid query timeRange maxDataPoints
                = JObj [(''queries'', JArr [JObj q])]
            \<and> map_of q ''datasource'' = Some (JObj [(''uid'', datasourceUid)])"
  using assms
  by (simp add: queryRequest_def Let_def map_of_obj_spread spread_single update_conv')

lemma queryDatasource_success:
  assumes "\<not> nullish params"
    and "rq = query_fetch cc (queryRequest (own_prop params ''datasourceUid'')
              (own_prop params ''query'') (own_prop params ''timeRange'')
              (own_prop params ''maxDataPoints''))"
    and "fetch pf (world s) rq = (w1, Inr response)" "ok response"
    and "response_json lib response = Inr result" "\<not> nullish result"
  shows "queryDatasource pf lib cc params s =
           (s\<lparr>world := w1, trace := trace s @ [Fetch rq]\<rparr>,
            Inr (query_output lib (own_prop params ''datasourceUid'') (own_prop params ''query'')
                   (own_prop params ''timeRange'') result))"
  using assms
  by (simp add: queryDatasource_def do_fetch_def get_prop_def Let_def)

text \<open>The frame-count summary of a result with two frames.\<close>

lemma summary_frames:
  "summary frames_data = ''Query executed successfully. Returned 2 data frames.''"
  by (simp add: summary_def frameCount_def frames_data_def opt_prop_def nullish_def js_or_def
                show_int_def show_nat.simps digit_def)

text \<open>
  Claim C8 at the arguments \<open>{datasourceUid: "X", query: {datasource: {uid: "Y"},
  expr: "up"}}\<close>: the one query sent upstream is keyed to \<open>Y\<close>, the \<open>datasource\<close>
  member of the query object having replaced the one built from \<open>datasourceUid\<close>,
  while the tool output is the one for datasource \<open>X\<close>.
\<close>

theorem query_datasource_override:
  "queryDatasource metrics_platform lib1 cc0 override_params ready =
     (ready\<lparr>world := 1,
            trace := [Fetch \<lparr>rq_url = ''http://grafana:3000/api/ds/query'', rq_method = POST,
                             rq_headers = [(''Authorization'', ''Bearer glsa_x''),
                                           (''Content-Type'', ''application/json'')],
                             rq_body = Some (JObj [(''queries'', JArr [JObj [
                                          (''datasource'', JObj [(''uid'', JStr ''Y'')]),
                                          (''expr'', JStr ''up''),
                                          (''refId'', JStr ''A'')]])])\<rparr>]\<rparr>,
      Inr (query_output lib1 (JStr ''X'')
             (JObj [(''datasource'', JObj [(''uid'', JStr ''Y'')]), (''expr'', JStr ''up'')])
             JUndefined frames_data))"
  by (simp add: queryDatasource_def override_params_def nullish_def queryRequest_def
                obj_spread_def js_and_def query_fetch_def api_headers_def cc0_def do_fetch_def
                metrics_platform_def reply_def ok_def response_json_def lib1_def get_prop_def
                frames_data_def ready_def)

section \<open>Properties of the merged catalog\<close>

lemma tool_name_localTools:
  "map tool_name localTools = [JStr ''list_datasources_detailed'', JStr ''query_datasource'']"
  by (simp add: localTools_def tool_name_def opt_prop_def nullish_def)

text \<open>
  Claim C2, as the code has it. For an authenticated \<open>tools/list\<close> request whose
  forwarded answer parses to a value with a truthy \<open>result\<close> whose \<open>tools\<close> is an array
  (an answer that does not parse counts as the empty catalog), the returned catalog is
  the backend's array followed by the two local descriptors. Its set of names is the union
  of the backend's names and the two local names; its names are pairwise different exactly
  when the backend's are and none of them is a local name.
\<close>

theorem tools_list_catalog:
  assumes auth: "in_authorization req = Some h" "prefix ''Bearer '' h"
                "validateToken pf (world s) (drop 7 h) = (w1, Inr claims)"
    and call: "in_json req = Inr reqBody" "\<not> nullish reqBody"
              "own_prop reqBody ''method'' = JStr ''tools/list''"
    and backend: "hmr reqBody (in_session req) (s\<lparr>world := w1\<rparr>) = (s1, Inr grafanaResponse)"
                 "gw_text lib grafanaResponse = Inr responseText"
    and parsed: "grafanaData =
                   (case parse lib responseText of
                      Inl parseError \<Rightarrow> JObj [(''result'', JObj [(''tools'', JArr [])])]
                    | Inr d \<Rightarrow> d)"
    and catalog: "\<not> nullish grafanaData" "truthy (own_prop grafanaData ''result'')"
                 "own_prop (own_prop grafanaData ''result'') ''tools'' = JArr grafanaTools"
  shows "app_post pf lib render cc hmr req s =
           (s1, \<lparr>gw_status = 200, gw_statusText = [],
                 gw_headers = [(''Content-Type'', ''application/json'')],
                 gw_body = Json (JObj [(''jsonrpc'', JStr ''2.0''),
                                       (''id'', own_prop reqBody ''id''),
                                       (''result'',
                                        JObj [(''tools'', JArr (grafanaTools @ localTools))])])\<rparr>)
         \<and> set (map tool_name (grafanaTools @ localTools))
             = set (map tool_name grafanaTools)
                 \<union> {JStr ''query_datasource'', JStr ''list_datasources_detailed''}
         \<and> (distinct (map tool_name (grafanaTools @ localTools)) \<longleftrightarrow>
               distinct (map tool_name grafanaTools)
               \<and> JStr ''query_datasource'' \<notin> set (map tool_name grafanaTools)
               \<and> JStr ''list_datasources_detailed'' \<notin> set (map tool_name grafanaTools))"
proof -
  let ?s0 = "s\<lparr>world := w1\<rparr>"
  have "tools_list lib hmr reqBody (in_session req) ?s0 =
          (s1, c_json (JObj [(''jsonrpc'', JStr ''2.0''),
                             (''id'', own_prop reqBody ''id''),
                             (''result'', JObj [(''tools'', JArr (grafanaTools @ localTools))])])
                 200)"
    using backend parsed[symmetric] catalog
    by (simp add: tools_list_def get_prop_def Let_def)
  then have "post_dispatch pf lib render cc hmr req ?s0 =
          (s1, c_json (JObj [(''jsonrpc'', JStr ''2.0''),
                             (''id'', own_prop reqBody ''id''),
                             (''result'', JObj [(''tools'', JArr (grafanaTools @ localTools))])])
                 200)"
    using call by (simp add: post_dispatch_def get_prop_def)
  with app_post_authorized[OF auth]
  have first: "app_post pf lib render cc hmr req s =
           (s1, \<lparr>gw_status = 200, gw_statusText = [],
                 gw_headers = [(''Content-Type'', ''application/json'')],
                 gw_body = Json (JObj [(''jsonrpc'', JStr ''2.0''),
                                       (''id'', own_prop reqBody ''id''),
                                       (''result'',
                                        JObj [(''tools'', JArr (grafanaTools @ localTools))])])\<rparr>)"
    by (simp add: c_json_def json_headers_def)
  have names: "set (map tool_name (grafanaTools @ localTools))
             = set (map tool_name grafanaTools)
                 \<union> {JStr ''query_datasource'', JStr ''list_datasources_detailed''}"
    using tool_name_localTools by auto
  have dist: "distinct (map tool_name (grafanaTools @ localTools)) \<longleftrightarrow>
               distinct (map tool_name grafanaTools)
               \<and> JStr ''query_datasource'' \<notin> set (map tool_name grafanaTools)
               \<and> JStr ''list_datasources_detailed'' \<notin> set (map tool_name grafanaTools)"
    using tool_name_localTools by auto
  from first names dist show ?thesis by simp
qed

theorem tools_list_catalog_witness:
  "app_post colliding_platform lib0 render0 cc0 (handleMcpRequest colliding_platform cfg0)
     list_request ready =
     (ready\<lparr>world := 1,
            trace := [Fetch (backend_post (mcpServerUrl cfg0) json_headers
                               (JObj [(''jsonrpc'', JStr ''2.0''), (''id'', JNum 1),
                                      (''method'', JStr ''tools/list'')]))]\<rparr>,
      \<lparr>gw_status = 200, gw_statusText = [],
       gw_headers = [(''Content-Type'', ''application/json'')],
       gw_body = Json (JObj [(''jsonrpc'', JStr ''2.0''),
                             (''id'', JNum 1),
                             (''result'',
                              JObj [(''tools'',
                                     JArr ([JObj [(''name'', JStr ''query_datasource'')]]
                                           @ localTools))])])\<rparr>)"
proof -
  let ?rb = "JObj [(''jsonrpc'', JStr ''2.0''), (''id'', JNum 1), (''method'', JStr ''tools/list'')]"
  let ?s1 = "ready\<lparr>world := 1,
            trace := [Fetch (backend_post (mcpServerUrl cfg0) json_headers ?rb)]\<rparr>"
  let ?gr = "\<lparr>gw_status = 200, gw_statusText = ''OK'',
              gw_headers = [(''Content-Type'', ''application/json'')],
              gw_body = Text colliding_text\<rparr>"
  have auth: "in_authorization list_request = Some ''Bearer token''"
    "prefix ''Bearer '' ''Bearer token''"
    "validateToken colliding_platform (world ready) (drop 7 ''Bearer token'')
       = (0, Inr (JObj [(''sub'', JStr ''user'')]))"
    by (simp_all add: list_request_def colliding_platform_def accept_all_def ready_def)
  have call: "in_json list_request = Inr ?rb" "\<not> nullish ?rb"
    "own_prop ?rb ''method'' = JStr ''tools/list''"
    by (simp_all add: list_request_def nullish_def)
  have ne: "colliding_text \<noteq> []" "\<not> prefix ''{'' colliding_text \<Longrightarrow> False"
    "\<not> str_includes colliding_text ''Invalid session ID''"
    by (simp_all add: colliding_text_def)
  have backend: "handleMcpRequest colliding_platform cfg0 ?rb (in_session list_request)
                   (ready\<lparr>world := 0\<rparr>) = (?s1, Inr ?gr)"
    by (simp add: handleMcpRequest_def initializeMcpServer_def already_running_def ready_def
                  do_fetch_def colliding_platform_def reply_def ok_def relay_response_def
                  new_Response_def null_body_status_def reason_phrase_def
                  session_header_def list_request_def)
  have rtext: "gw_text lib0 ?gr = Inr colliding_text"
    by (simp add: gw_text_def)
  have parsed: "colliding_data =
                   (case parse lib0 colliding_text of
                      Inl parseError \<Rightarrow> JObj [(''result'', JObj [(''tools'', JArr [])])]
                    | Inr d \<Rightarrow> d)"
    by (simp add: lib0_def)
  have cat: "\<not> nullish colliding_data" "truthy (own_prop colliding_data ''result'')"
    "own_prop (own_prop colliding_data ''result'') ''tools''
       = JArr [JObj [(''name'', JStr ''query_datasource'')]]"
    by (simp_all add: colliding_data_def nullish_def)
  show ?thesis
    using tools_list_catalog[where hmr = "handleMcpRequest colliding_platform cfg0"
            and pf = colliding_platform and s = ready and lib = lib0 and render = render0
            and cc = cc0, OF auth call backend rtext parsed cat]
    by simp
qed

text \<open>
  A backend that advertises a tool named \<open>query_datasource\<close>: the returned catalog has
  two entries of that name.
\<close>

theorem duplicate_names_counterexample:
  "app_post colliding_platform lib0 render0 cc0 (handleMcpRequest colliding_platform cfg0)
     list_request ready =
     (ready\<lparr>world := 1,
            trace := [Fetch (backend_post (mcpServerUrl cfg0) json_headers
                               (JObj [(''jsonrpc'', JStr ''2.0''), (''id'', JNum 1),
                                      (''method'', JStr ''tools/list'')]))]\<rparr>,
      c_json (JObj [(''jsonrpc'', JStr ''2.0''), (''id'', JNum 1),
                    (''result'',
                     JObj [(''tools'',
                            JArr (JObj [(''name'', JStr ''query_datasource'')] # localTools))])])
        200)
   \<and> map tool_name (JObj [(''name'', JStr ''query_datasource'')] # localTools)
       = [JStr ''query_datasource'', JStr ''list_datasources_detailed'',
          JStr ''query_datasource'']
   \<and> \<not> distinct (map tool_name (JObj [(''name'', JStr ''query_datasource'')] # localTools))"
proof -
  have ne: "colliding_text \<noteq> []"
    "\<not> str_includes colliding_text ''Invalid session ID''"
    by (simp_all add: colliding_text_def)
  have "handleMcpRequest colliding_platform cfg0
          (JObj [(''jsonrpc'', JStr ''2.0''), (''id'', JNum 1), (''method'', JStr ''tools/list'')])
          None (ready\<lparr>world := 0\<rparr>)
        = (ready\<lparr>world := 1,
                 trace := [Fetch (backend_post (mcpServerUrl cfg0) json_headers
                               (JObj [(''jsonrpc'', JStr ''2.0''), (''id'', JNum 1),
                                      (''method'', JStr ''tools/list'')]))]\<rparr>,
           Inr \<lparr>gw_status = 200, gw_statusText = ''OK'',
                gw_headers = [(''Content-Type'', ''application/json'')],
                gw_body = Text colliding_text\<rparr>)"
    by (simp add: handleMcpRequest_def initializeMcpServer_def already_running_def ready_def
                  do_fetch_def colliding_platform_def reply_def ok_def relay_response_def
                  new_Response_def null_body_status_def reason_phrase_def
                  session_header_def)
  then have "app_post colliding_platform lib0 render0 cc0
               (handleMcpRequest colliding_platform cfg0) list_request ready =
     (ready\<lparr>world := 1,
            trace := [Fetch (backend_post (mcpServerUrl cfg0) json_headers
                               (JObj [(''jsonrpc'', JStr ''2.0''), (''id'', JNum 1),
                                      (''method'', JStr ''tools/list'')]))]\<rparr>,
      c_json (JObj [(''jsonrpc'', JStr ''2.0''), (''id'', JNum 1),
                    (''result'',
                     JObj [(''tools'',
                            JArr (JObj [(''name'', JStr ''query_datasource'')] # localTools))])])
        200)"
    by (simp add: app_post_def post_dispatch_def tools_list_def list_request_def
                  colliding_platform_def accept_all_def get_prop_def nullish_def gw_text_def
                  lib0_def colliding_data_def ready_def)
  moreover have "map tool_name (JObj [(''name'', JStr ''query_datasource'')] # localTools)
       = [JStr ''query_datasource'', JStr ''list_datasources_detailed'',
          JStr ''query_datasource'']"
    by (simp add: tool_name_localTools) (simp add: tool_name_def opt_prop_def nullish_def)
  ultimately show ?thesis by simp
qed

section \<open>Properties of concurrent demands\<close>

lemma initialize_as_steps:
  "initializeMcpServer pf cfg s =
     (case demand_enter pf cfg s of
        (s1, Completed r) \<Rightarrow> (s1, r)
      | (s1, d) \<Rightarrow> await_ready pf cfg s1)"
  by (simp add: initializeMcpServer_def demand_enter_def)

lemma spawn_backend_effect:
  "isInitialized (spawn_backend pf cfg s) = isInitialized s"
  "spawns (trace (spawn_backend pf cfg s)) = Suc (spawns (trace s))"
  by (simp_all add: spawn_backend_def do_spawn_def spawns_def)

lemma enter_uninitialised:
  "\<not> isInitialized s \<Longrightarrow> demand_enter pf cfg s = (spawn_backend pf cfg s, Suspended)"
  by (simp add: demand_enter_def already_running_def)

lemma entering_in_turn:
  "distinct sched \<Longrightarrow> set sched \<subseteq> {..< n} \<Longrightarrow> \<not> isInitialized s \<Longrightarrow>
     \<exists>s'. run_schedule pf cfg sched (s, replicate n NotStarted)
             = (s', map (\<lambda>i. if i \<in> set sched then Suspended else NotStarted) [0 ..< n])
         \<and> \<not> isInitialized s' \<and> spawns (trace s') = spawns (trace s) + length sched"
proof (induction sched rule: rev_induct)
  case Nil
  then show ?case by (simp add: run_schedule_def map_replicate_const)
next
  case (snoc x xs)
  let ?ds = "map (\<lambda>i. if i \<in> set xs then Suspended else NotStarted) [0 ..< n]"
  from snoc obtain s1 where s1:
    "run_schedule pf cfg xs (s, replicate n NotStarted) = (s1, ?ds)"
    "\<not> isInitialized s1" "spawns (trace s1) = spawns (trace s) + length xs"
    by auto
  from snoc.prems have x: "x < n" "x \<notin> set xs" by auto
  then have at: "?ds ! x = NotStarted" "x < length ?ds" by simp_all
  have upd: "?ds[x := Suspended]
               = map (\<lambda>i. if i \<in> set (xs @ [x]) then Suspended else NotStarted) [0 ..< n]"
    using x by (auto simp: list_eq_iff_nth_eq nth_list_update)
  have "run_schedule pf cfg (xs @ [x]) (s, replicate n NotStarted)
          = sched_step pf cfg x (s1, ?ds)"
    using s1(1) by (simp add: run_schedule_def)
  also have "\<dots> = (spawn_backend pf cfg s1, ?ds[x := Suspended])"
    using at enter_uninitialised[OF s1(2)] by (simp add: sched_step_def)
  finally show ?case
    using s1(2,3) upd by (simp add: spawn_backend_effect)
qed

lemma exited_not_running: "\<not> already_running (process_exited s)"
  by (simp add: already_running_def process_exited_def)

text \<open>
  Claim C5, as the code has it. \<open>isInitialized\<close> is set only after \<open>waitForServer\<close>
  has returned, and nothing records an attempt in flight. So when \<open>n\<close> demands enter,
  in any order, before any of them has resumed, each of them spawns a process: \<open>n\<close>
  processes in all. A demand spawns nothing exactly when it enters while \<open>isInitialized\<close>
  is set and the process handle is present and not killed; in every other state it spawns
  one process. After an exit or error event of the process, which resets the flag, the
  state is of the second kind.
\<close>

theorem demands_in_flight_each_spawn:
  "(distinct sched \<and> set sched = {..< n} \<and> \<not> isInitialized s \<longrightarrow>
      (\<exists>s'. run_schedule pf cfg sched (s, replicate n NotStarted)
               = (s', replicate n Suspended)
           \<and> spawns (trace s') = spawns (trace s) + n))
   \<and> (already_running s \<longrightarrow> demand_enter pf cfg s = (s, Completed (Inr ())))
   \<and> (\<not> already_running s \<longrightarrow>
         demand_enter pf cfg s = (spawn_backend pf cfg s, Suspended)
         \<and> spawns (trace (spawn_backend pf cfg s)) = spawns (trace s) + 1)
   \<and> \<not> already_running (process_exited s)"
proof (intro conjI impI)
  assume a: "distinct sched \<and> set sched = {..< n} \<and> \<not> isInitialized s"
  then have len: "length sched = n"
    using distinct_card[of sched] by simp
  have all: "map (\<lambda>i. if i \<in> set sched then Suspended else NotStarted) [0 ..< n]
               = replicate n Suspended"
    using a by (auto simp: list_eq_iff_nth_eq)
  from a have "distinct sched" "set sched \<subseteq> {..< n}" "\<not> isInitialized s" by auto
  from entering_in_turn[OF this, of pf cfg] len all
  show "\<exists>s'. run_schedule pf cfg sched (s, replicate n NotStarted)
               = (s', replicate n Suspended)
           \<and> spawns (trace s') = spawns (trace s) + n"
    by auto
next
  assume "already_running s"
  then show "demand_enter pf cfg s = (s, Completed (Inr ()))"
    by (simp add: demand_enter_def)
next
  assume "\<not> already_running s"
  then show "demand_enter pf cfg s = (spawn_backend pf cfg s, Suspended)"
    by (simp add: demand_enter_def)
next
  show "spawns (trace (spawn_backend pf cfg s)) = spawns (trace s) + 1"
    by (simp add: spawn_backend_effect)
next
  show "\<not> already_running (process_exited s)"
    by (rule exited_not_running)
qed

theorem demands_in_flight_each_spawn_witness:
  "(\<exists>s'. run_schedule strict_platform cfg0 [2, 0, 1] (fresh, replicate 3 NotStarted)
               = (s', replicate 3 Suspended)
           \<and> spawns (trace s') = 3)
   \<and> demand_enter strict_platform cfg0 ready = (ready, Completed (Inr ()))
   \<and> demand_enter strict_platform cfg0 (process_exited ready)
       = (spawn_backend strict_platform cfg0 (process_exited ready), Suspended)
   \<and> spawns (trace (spawn_backend strict_platform cfg0 (process_exited ready))) = 1"
proof -
  have "distinct [2, 0, 1 :: nat] \<and> set [2, 0, 1 :: nat] = {..< 3} \<and> \<not> isInitialized fresh"
    by (auto simp: fresh_def)
  moreover have "already_running ready"
    by (simp add: ready_def already_running_def)
  moreover have "\<not> already_running (process_exited ready)"
    by (simp add: ready_def already_running_def process_exited_def)
  moreover have "spawns (trace (process_exited ready)) = 0" "spawns (trace fresh) = 0"
    by (simp_all add: process_exited_def ready_def fresh_def spawns_def)
  ultimately show ?thesis
    using demands_in_flight_each_spawn[of "[2, 0, 1]" 3 fresh strict_platform cfg0]
          demands_in_flight_each_spawn[of "[2, 0, 1]" 3 ready strict_platform cfg0]
          demands_in_flight_each_spawn[of "[2, 0, 1]" 3 "process_exited ready" strict_platform cfg0]
    by simp
qed

lemma strict_ready:
  "waitForServer strict_platform cfg0 s =
     (s\<lparr>world := Suc (world s),
        trace := trace s @ [Fetch (probe_post (mcpServerUrl cfg0))]\<rparr>, Inr ())"
  unfolding waitForServer_def
  by (subst waitLoop.simps)
     (simp add: maxRetries_def attempt_def do_fetch_def strict_platform_def probe_post_def
                reply_def ok_def)

text \<open>
  Two demands, both entering before the first resumes: two processes are spawned, and both
  demands complete normally.
\<close>

theorem two_demands_counterexample:
  "spawns (trace (fst (run_schedule strict_platform cfg0 [0, 1, 0, 1]
                         (fresh, [NotStarted, NotStarted])))) = 2
   \<and> snd (run_schedule strict_platform cfg0 [0, 1, 0, 1] (fresh, [NotStarted, NotStarted]))
       = [Completed (Inr ()), Completed (Inr ())]"
  by (simp add: run_schedule_def sched_step_def demand_enter_def demand_resume_def
                already_running_def await_ready_def strict_ready spawn_backend_def do_spawn_def
                fresh_def spawns_def)

end
